theory Spec2Isabelle
  imports Complex_Main "HOL-Library.Sublist"
begin

section \<open>The fine-tuning notebook as a sequence of library calls\<close>

text \<open>
  The repository is one Databricks notebook,
  \<^verbatim>\<open>LLM 04a - Fine-tuning LLMs\<close>: a straight-line Python script whose cells call
  into external libraries (\<^verbatim>\<open>datasets\<close>, \<^verbatim>\<open>transformers\<close>, \<^verbatim>\<open>pandas\<close>,
  \<^verbatim>\<open>tempfile\<close>) and set a few values of its own. The embedding keeps that shape.

  \<^item> An object returned by a library is opaque: a value of the type variable \<open>'o\<close>.
  \<^item> Every call the notebook makes into a library is an \<open>event\<close> carrying the
    arguments of the call, keyword arguments included.
  \<^item> What a library answers is not decided by the notebook: it is the parameter
    \<open>lib\<close>, a function of the world so far and of the call, returning either the
    exception raised (\<open>Inl\<close>) or the object returned (\<open>Inr\<close>).
  \<^item> The world is what the notebook has done so far: the trace of calls, each with
    its answer, and the process environment \<^verbatim>\<open>os.environ\<close>.
  \<^item> A cell is a function from the world to the new world and a result; cells are
    sequenced with \<open>seq\<close>, which stops at the first exception, as a notebook run does.
\<close>

subsection \<open>Exceptions\<close>

datatype py_error =
  AssertionError string
| KeyError int
| LibraryError string

subsection \<open>Values handed to the libraries\<close>

text \<open>A batch of the IMDB dataset: the columns \<^verbatim>\<open>x["text"]\<close> and \<^verbatim>\<open>x["label"]\<close>.\<close>

record batch =
  text_column :: "string list"
  label_column :: "int list"

text \<open>
  The arguments of a call of the tokenizer:
  \<^verbatim>\<open>tokenizer(text, text_target=..., return_tensors=..., truncation=..., padding=...)\<close>.
  \<open>text_target\<close> is \<open>None\<close> where the call does not pass it.
\<close>

record tokenizer_args =
  tok_text :: "string list"
  text_target :: "string list option"
  return_tensors :: string
  truncation :: bool
  padding :: bool

text \<open>
  The closure \<^verbatim>\<open>apply\<close> that \<^verbatim>\<open>to_tokens(tokenizer, label_map)\<close> returns, as the
  pair of the two variables it captures.
\<close>

datatype 'o closure = Apply 'o "int \<rightharpoonup> string"

text \<open>A Python literal of the configuration dictionary.\<close>

datatype cfg =
  CInt int
| CFloat real
| CStr string
| CBool bool
| CDict "(string \<times> cfg) list"

text \<open>The arguments of \<^verbatim>\<open>tr.TrainingArguments(...)\<close> that the notebook passes.\<close>

record training_arguments =
  output_dir :: string
  num_train_epochs :: int
  per_device_train_batch_size :: int
  optim :: "string option"
  deepspeed :: "cfg option"
  report_to :: "string list"

text \<open>The arguments of \<^verbatim>\<open>tr.Trainer(...)\<close>.\<close>

record 'o trainer_args =
  tr_model :: 'o
  tr_args :: 'o
  train_dataset :: 'o
  eval_dataset :: 'o
  tr_tokenizer :: 'o
  data_collator :: 'o

subsection \<open>Calls into the libraries\<close>

datatype 'o event =
  Magic string "string list"
    \<comment> \<open>a \<^verbatim>\<open># MAGIC\<close> cell: the magic command and its lines or arguments\<close>
| Print string
| TemporaryDirectory
    \<comment> \<open>\<^verbatim>\<open>tempfile.TemporaryDirectory()\<close>\<close>
| LoadDataset string
    \<comment> \<open>\<^verbatim>\<open>load_dataset(name)\<close>\<close>
| AutoTokenizer_from_pretrained string "string option"
    \<comment> \<open>\<^verbatim>\<open>tr.AutoTokenizer.from_pretrained(name, cache_dir=...)\<close>\<close>
| DatasetMap 'o "'o closure" bool "string list"
    \<comment> \<open>\<^verbatim>\<open>ds.map(function, batched=..., remove_columns=...)\<close>\<close>
| GetItem 'o string
    \<comment> \<open>\<^verbatim>\<open>obj[key]\<close> on a library object\<close>
| TrainingArguments training_arguments
| AutoModelForSeq2SeqLM_from_pretrained string "string option"
    \<comment> \<open>\<^verbatim>\<open>tr.AutoModelForSeq2SeqLM.from_pretrained(name_or_path, cache_dir=...)\<close>\<close>
| DataCollatorWithPadding 'o
| Trainer "'o trainer_args"
| Train 'o
    \<comment> \<open>\<^verbatim>\<open>trainer.train()\<close>\<close>
| SaveModel 'o "string option"
    \<comment> \<open>\<^verbatim>\<open>trainer.save_model(output_dir=...)\<close>\<close>
| SaveState 'o
| TokenizerCall 'o tokenizer_args
    \<comment> \<open>\<^verbatim>\<open>tokenizer(...)\<close>\<close>
| Generate 'o 'o 'o
    \<comment> \<open>\<^verbatim>\<open>model.generate(input_ids=..., attention_mask=...)\<close>\<close>
| BatchDecode 'o 'o bool
    \<comment> \<open>\<^verbatim>\<open>tokenizer.batch_decode(pred, skip_special_tokens=...)\<close>\<close>
| DataFrame "(string \<times> string) list" "string list"
    \<comment> \<open>\<^verbatim>\<open>pd.DataFrame(rows, columns=...)\<close>\<close>
| Display 'o
| Cleanup 'o
    \<comment> \<open>\<^verbatim>\<open>tmpdir.cleanup()\<close>\<close>

subsection \<open>The world and the environment of a run\<close>

record 'o world =
  trace :: "('o event \<times> (py_error + 'o)) list"
  environ :: "string \<rightharpoonup> string"

text \<open>
  What the notebook reads and does not define: the Spark configuration value
  \<^verbatim>\<open>spark.databricks.clusterUsageTags.sparkVersion\<close>, the object \<^verbatim>\<open>DA\<close> that
  \<^verbatim>\<open>../Includes/Classroom-Setup\<close> defines (its \<^verbatim>\<open>username\<close>, \<^verbatim>\<open>paths.working_dir\<close>
  and \<^verbatim>\<open>paths.datasets\<close>), the libraries, and two reads of a library object:
  the attribute \<^verbatim>\<open>tmpdir.name\<close> and the strings that iterating over the result of
  \<^verbatim>\<open>batch_decode\<close> yields.
\<close>

record 'o env =
  spark_version :: string
  da_username :: string
  da_working_dir :: string
  da_datasets :: string
  lib :: "'o world \<Rightarrow> 'o event \<Rightarrow> py_error + 'o"
  tmpdir_name :: "'o \<Rightarrow> string"
  items :: "'o \<Rightarrow> string list"

type_synonym ('o, 'a) cell = "'o world \<Rightarrow> 'o world \<times> (py_error + 'a)"

definition ret :: "'a \<Rightarrow> ('o, 'a) cell" where
  "ret x = (\<lambda>w. (w, Inr x))"

definition raise :: "py_error \<Rightarrow> ('o, 'a) cell" where
  "raise e = (\<lambda>w. (w, Inl e))"

definition seq :: "('o, 'a) cell \<Rightarrow> ('a \<Rightarrow> ('o, 'b) cell) \<Rightarrow> ('o, 'b) cell" where
  "seq m f = (\<lambda>w. case m w of
                    (w', Inl e) \<Rightarrow> (w', Inl e)
                  | (w', Inr x) \<Rightarrow> f x w')"

text \<open>A call is recorded with its answer, whether it returns or raises.\<close>

definition call :: "'o env \<Rightarrow> 'o event \<Rightarrow> ('o, 'o) cell" where
  "call env ev = (\<lambda>w. let r = lib env w ev
                       in (w\<lparr>trace := trace w @ [(ev, r)]\<rparr>, r))"

text \<open>\<^verbatim>\<open>os.environ[k] = v\<close>\<close>

definition setenv :: "string \<Rightarrow> string \<Rightarrow> ('o, unit) cell" where
  "setenv k v = (\<lambda>w. (w\<lparr>environ := (environ w)(k \<mapsto> v)\<rparr>, Inr ()))"

subsection \<open>The tokenization closure\<close>

text \<open>
  \<^verbatim>\<open>
  def to_tokens(tokenizer, label_map) -> callable:
      def apply(x):
          target_labels = [label_map[y] for y in x["label"]]
          token_res = tokenizer(
              x["text"],
              text_target=target_labels,
              return_tensors="pt",
              truncation=True,
              padding=True,
          )
          return token_res
      return apply

  imdb_label_lookup = {0: "negative", 1: "positive", -1: "unknown"}
  \<close>
  The list comprehension looks the labels up from left to right and raises
  \<^verbatim>\<open>KeyError\<close> at the first one that is not a key.
\<close>

fun lookup_labels :: "(int \<rightharpoonup> string) \<Rightarrow> int list \<Rightarrow> py_error + string list" where
  "lookup_labels label_map [] = Inr []"
| "lookup_labels label_map (y # ys) =
     (case label_map y of
        None \<Rightarrow> Inl (KeyError y)
      | Some s \<Rightarrow> (case lookup_labels label_map ys of
                     Inl e \<Rightarrow> Inl e
                   | Inr ss \<Rightarrow> Inr (s # ss)))"

definition to_tokens :: "'o \<Rightarrow> (int \<rightharpoonup> string) \<Rightarrow> 'o closure" where
  "to_tokens tokenizer label_map = Apply tokenizer label_map"

fun apply_closure :: "'o env \<Rightarrow> 'o closure \<Rightarrow> batch \<Rightarrow> ('o, 'o) cell" where
  "apply_closure env (Apply tokenizer label_map) x =
     (case lookup_labels label_map (label_column x) of
        Inl e \<Rightarrow> raise e
      | Inr target_labels \<Rightarrow>
          call env (TokenizerCall tokenizer
            \<lparr>tok_text = text_column x,
             text_target = Some target_labels,
             return_tensors = ''pt'',
             truncation = True,
             padding = True\<rparr>))"

definition imdb_label_lookup :: "int \<rightharpoonup> string" where
  "imdb_label_lookup = [0 \<mapsto> ''negative'', 1 \<mapsto> ''positive'', -1 \<mapsto> ''unknown'']"

subsection \<open>Python operations the notebook uses\<close>

text \<open>\<^verbatim>\<open>sub in s\<close> on strings: \<open>sub\<close> occurs in \<open>s\<close> as a contiguous substring.\<close>

fun py_in :: "string \<Rightarrow> string \<Rightarrow> bool" where
  "py_in sub [] = (sub = [])"
| "py_in sub (c # cs) = (prefix sub (c # cs) \<or> py_in sub cs)"

text \<open>
  \<^verbatim>\<open>os.path.join(a, b)\<close> on POSIX: an absolute \<open>b\<close> replaces \<open>a\<close>; otherwise \<open>b\<close> is
  appended, after a separator unless \<open>a\<close> is empty or already ends with one.
\<close>

definition os_path_join :: "string \<Rightarrow> string \<Rightarrow> string" where
  "os_path_join a b =
     (if prefix ''/'' b then b
      else if a = [] \<or> suffix ''/'' a then a @ b
      else a @ ''/'' @ b)"

subsection \<open>The cells of the notebook\<close>

text \<open>
  Markdown cells and \<^verbatim>\<open>import\<close> statements make no call and are left out. The first
  cell that runs is the assertion that "gpu" occurs in the Spark configuration value
  \<^verbatim>\<open>spark.databricks.clusterUsageTags.sparkVersion\<close>; its message is
  \<^verbatim>\<open>"THIS LAB REQUIRES THAT A GPU MACHINE AND RUNTIME IS UTILIZED."\<close>
\<close>

definition gpu_message :: string where
  "gpu_message = ''THIS LAB REQUIRES THAT A GPU MACHINE AND RUNTIME IS UTILIZED.''"

definition assert_gpu :: "'o env \<Rightarrow> ('o, unit) cell" where
  "assert_gpu env =
     (if py_in ''gpu'' (spark_version env) then ret ()
      else raise (AssertionError gpu_message))"

text \<open>
  Classroom setup: the \<^verbatim>\<open>%sh\<close> cell installing the CUDA packages, \<^verbatim>\<open>%pip\<close>,
  \<^verbatim>\<open>%run ../Includes/Classroom-Setup\<close>, the two \<^verbatim>\<open>print\<close>s, \<^verbatim>\<open>autoreload\<close>, and
  \<^verbatim>\<open>tmpdir = tempfile.TemporaryDirectory()\<close>. It returns \<^verbatim>\<open>tmpdir\<close>.
\<close>

definition sh_lines :: "string list" where
  "sh_lines =
     [''mkdir -p /tmp/externals/cuda'',
      ''wget https://developer.download.nvidia.com/compute/cuda/repos/ubuntu2004/x86_64/libcurand-dev-11-7_10.2.10.50-1_amd64.deb -P /tmp/externals/cuda'',
      ''wget https://developer.download.nvidia.com/compute/cuda/repos/ubuntu2004/x86_64/libcusparse-dev-11-7_11.7.3.50-1_amd64.deb -P /tmp/externals/cuda'',
      ''wget https://developer.download.nvidia.com/compute/cuda/repos/ubuntu2004/x86_64/libcublas-dev-11-7_11.10.1.25-1_amd64.deb -P /tmp/externals/cuda'',
      ''wget https://developer.download.nvidia.com/compute/cuda/repos/ubuntu2004/x86_64/libcusolver-dev-11-7_11.4.0.1-1_amd64.deb -P /tmp/externals/cuda'',
      ''dpkg -i /tmp/externals/cuda/libcurand-dev-11-7_10.2.10.50-1_amd64.deb'',
      ''dpkg -i /tmp/externals/cuda/libcusparse-dev-11-7_11.7.3.50-1_amd64.deb'',
      ''dpkg -i /tmp/externals/cuda/libcublas-dev-11-7_11.10.1.25-1_amd64.deb'',
      ''dpkg -i /tmp/externals/cuda/libcusolver-dev-11-7_11.4.0.1-1_amd64.deb'']"

definition classroom_setup :: "'o env \<Rightarrow> ('o, 'o) cell" where
  "classroom_setup env =
     seq (call env (Magic ''%sh'' sh_lines)) (\<lambda>_.
     seq (call env (Magic ''%pip'' [''install'', ''deepspeed==0.9.1'', ''py-cpuinfo==9.0.0''])) (\<lambda>_.
     seq (call env (Magic ''%run'' [''../Includes/Classroom-Setup''])) (\<lambda>_.
     seq (call env (Print (''Username:          '' @ da_username env))) (\<lambda>_.
     seq (call env (Print (''Working Directory: '' @ da_working_dir env))) (\<lambda>_.
     seq (call env (Magic ''%load_ext'' [''autoreload''])) (\<lambda>_.
     seq (call env (Magic ''%autoreload'' [''2''])) (\<lambda>_.
     call env TemporaryDirectory)))))))"

text \<open>The reviews classified in the two prediction cells, as the source writes them.\<close>

definition review_1 :: string where
  "review_1 =
     ''\<newline>'Despicable Me' is a cute and funny movie, but the plot is predictable and the characters are not very well-developed. Overall, it's a good movie for kids, but adults might find it a bit boring.''"

definition review_2 :: string where
  "review_2 =
     '' 'The Batman' is a dark and gritty take on the Caped Crusader, starring Robert Pattinson as Bruce Wayne. The film is a well-made crime thriller with strong performances and visuals, but it may be too slow-paced and violent for some viewers.\<newline>''"

definition review_3 :: string where
  "review_3 =
     ''\<newline>The Phantom Menace is a visually stunning film with some great action sequences, but the plot is slow-paced and the dialogue is often wooden. It is a mixed bag that will appeal to some fans of the Star Wars franchise, but may disappoint others.\<newline>''"

definition review_4 :: string where
  "review_4 =
     ''\<newline>I'm not sure if The Matrix and the two sequels were meant to have a tigh consistency but I don't think they quite fit together. They seem to have a reasonably solid arc but the features from the first aren't in the second and third as much, instead the second and third focus more on CGI battles and more visuals. I like them but for different reasons, so if I'm supposed to rate the trilogy I'm not sure what to say.\<newline>''"

definition deepspeed_review :: string where
  "deepspeed_review =
     ''\<newline>           I'm not sure if The Matrix and the two sequels were meant to have a tight consistency but I don't think they quite fit together. They seem to have a reasonably solid arc but the features from the first aren't in the second and third as much, instead the second and third focus more on CGI battles and more visuals. I like them but for different reasons, so if I'm supposed to rate the trilogy I'm not sure what to say.''"

definition reviews :: "string list" where
  "reviews = [review_1, review_2, review_3, review_4]"

definition review :: "string list" where
  "review = [deepspeed_review]"

text \<open>
  The section \<^bold>\<open>Fine-Tuning\<close>, steps 1 to 5, with \<^verbatim>\<open>local_training_root = tmpdir.name\<close>.
  The arguments of a call are evaluated from left to right before the call, so the two
  subscripts \<^verbatim>\<open>tokenized_dataset["train"]\<close> and \<^verbatim>\<open>tokenized_dataset["test"]\<close> come
  before \<^verbatim>\<open>tr.Trainer(...)\<close>, and \<^verbatim>\<open>inputs["input_ids"]\<close>, \<^verbatim>\<open>inputs["attention_mask"]\<close>
  before \<^verbatim>\<open>generate\<close>. The section returns \<^verbatim>\<open>imdb_ds\<close>, which the next section uses
  again.
\<close>

definition fine_tuning :: "'o env \<Rightarrow> string \<Rightarrow> ('o, 'o) cell" where
  "fine_tuning env local_training_root =
     seq (call env (LoadDataset ''imdb'')) (\<lambda>imdb_ds.
     let model_checkpoint = ''t5-small'' in
     seq (call env (AutoTokenizer_from_pretrained model_checkpoint (Some (da_datasets env)))) (\<lambda>tokenizer.
     let imdb_to_tokens = to_tokens tokenizer imdb_label_lookup in
     seq (call env (DatasetMap imdb_ds imdb_to_tokens True [''text'', ''label''])) (\<lambda>tokenized_dataset.
     let checkpoint_name = ''test-trainer'';
         local_checkpoint_path = os_path_join local_training_root checkpoint_name in
     seq (call env (TrainingArguments
            \<lparr>output_dir = local_checkpoint_path,
             num_train_epochs = 1,
             per_device_train_batch_size = 16,
             optim = Some ''adamw_torch'',
             deepspeed = None,
             report_to = [''tensorboard'']\<rparr>)) (\<lambda>training_args.
     seq (call env (AutoModelForSeq2SeqLM_from_pretrained model_checkpoint (Some (da_datasets env)))) (\<lambda>model.
     seq (call env (DataCollatorWithPadding tokenizer)) (\<lambda>data_collator.
     seq (call env (GetItem tokenized_dataset ''train'')) (\<lambda>train_split.
     seq (call env (GetItem tokenized_dataset ''test'')) (\<lambda>test_split.
     seq (call env (Trainer
            \<lparr>tr_model = model,
             tr_args = training_args,
             train_dataset = train_split,
             eval_dataset = test_split,
             tr_tokenizer = tokenizer,
             data_collator = data_collator\<rparr>)) (\<lambda>trainer.
     let tensorboard_display_dir = local_checkpoint_path @ ''/runs'' in
     seq (call env (Magic ''%load_ext'' [''tensorboard''])) (\<lambda>_.
     seq (call env (Magic ''%tensorboard'' [''--logdir'', tensorboard_display_dir])) (\<lambda>_.
     seq (call env (Train trainer)) (\<lambda>_.
     seq (call env (SaveModel trainer None)) (\<lambda>_.
     seq (call env (SaveState trainer)) (\<lambda>_.
     let final_model_path = da_working_dir env @ ''/llm04_fine_tuning/'' @ checkpoint_name in
     seq (call env (SaveModel trainer (Some final_model_path))) (\<lambda>_.
     seq (call env (AutoModelForSeq2SeqLM_from_pretrained final_model_path None)) (\<lambda>fine_tuned_model.
     seq (call env (TokenizerCall tokenizer
            \<lparr>tok_text = reviews,
             text_target = None,
             return_tensors = ''pt'',
             truncation = True,
             padding = True\<rparr>)) (\<lambda>inputs.
     seq (call env (GetItem inputs ''input_ids'')) (\<lambda>input_ids.
     seq (call env (GetItem inputs ''attention_mask'')) (\<lambda>attention_mask.
     seq (call env (Generate fine_tuned_model input_ids attention_mask)) (\<lambda>pred.
     seq (call env (BatchDecode tokenizer pred True)) (\<lambda>decoded.
     seq (call env (DataFrame (zip reviews (items env decoded))
                      [''review'', ''classification''])) (\<lambda>pdf.
     seq (call env (Display pdf)) (\<lambda>_.
     ret imdb_ds)))))))))))))))))))))))"

text \<open>
  The section \<^bold>\<open>DeepSpeed\<close>: the environment of a single-node job, the configuration
  dictionary, and the second training run.
\<close>

definition environment_setup :: "('o, unit) cell" where
  "environment_setup =
     seq (setenv ''MASTER_ADDR'' ''localhost'') (\<lambda>_.
     seq (setenv ''MASTER_PORT'' ''9994'') (\<lambda>_.
     seq (setenv ''RANK'' ''0'') (\<lambda>_.
     seq (setenv ''LOCAL_RANK'' ''0'') (\<lambda>_.
     setenv ''WORLD_SIZE'' ''1''))))"

definition zero_config :: cfg where
  "zero_config =
     CDict
       [(''zero_optimization'', CDict
           [(''stage'', CInt 2),
            (''offload_optimizer'', CDict [(''device'', CStr ''cpu''), (''pin_memory'', CBool True)]),
            (''allgather_partitions'', CBool True),
            (''allgather_bucket_size'', CFloat (5 * 10 ^ 8)),
            (''overlap_comm'', CBool True),
            (''reduce_scatter'', CBool True),
            (''reduce_bucket_size'', CFloat (5 * 10 ^ 8)),
            (''contiguous_gradients'', CBool True)]),
        (''optimizer'', CDict
           [(''type'', CStr ''AdamW''),
            (''params'', CDict
               [(''lr'', CStr ''auto''),
                (''betas'', CStr ''auto''),
                (''eps'', CStr ''auto''),
                (''weight_decay'', CStr ''auto''),
                (''torch_adam'', CBool True)])]),
        (''train_batch_size'', CStr ''auto'')]"

definition deepspeed_run :: "'o env \<Rightarrow> string \<Rightarrow> 'o \<Rightarrow> ('o, unit) cell" where
  "deepspeed_run env local_training_root imdb_ds =
     (let model_checkpoint = ''t5-base'' in
     seq (call env (AutoTokenizer_from_pretrained model_checkpoint (Some (da_datasets env)))) (\<lambda>tokenizer.
     let imdb_to_tokens = to_tokens tokenizer imdb_label_lookup in
     seq (call env (DatasetMap imdb_ds imdb_to_tokens True [''text'', ''label''])) (\<lambda>tokenized_dataset.
     seq (call env (AutoModelForSeq2SeqLM_from_pretrained model_checkpoint (Some (da_datasets env)))) (\<lambda>model.
     let checkpoint_name = ''test-trainer-deepspeed'';
         checkpoint_location = os_path_join local_training_root checkpoint_name in
     seq (call env (TrainingArguments
            \<lparr>output_dir = checkpoint_location,
             num_train_epochs = 3,
             per_device_train_batch_size = 8,
             optim = None,
             deepspeed = Some zero_config,
             report_to = [''tensorboard'']\<rparr>)) (\<lambda>training_args.
     seq (call env (DataCollatorWithPadding tokenizer)) (\<lambda>data_collator.
     seq (call env (GetItem tokenized_dataset ''train'')) (\<lambda>train_split.
     seq (call env (GetItem tokenized_dataset ''test'')) (\<lambda>test_split.
     seq (call env (Trainer
            \<lparr>tr_model = model,
             tr_args = training_args,
             train_dataset = train_split,
             eval_dataset = test_split,
             tr_tokenizer = tokenizer,
             data_collator = data_collator\<rparr>)) (\<lambda>trainer.
     let tensorboard_display_dir = checkpoint_location @ ''/runs'' in
     seq (call env (Magic ''%load_ext'' [''tensorboard''])) (\<lambda>_.
     seq (call env (Magic ''%tensorboard'' [''--logdir'', tensorboard_display_dir])) (\<lambda>_.
     seq (call env (Train trainer)) (\<lambda>_.
     seq (call env (SaveModel trainer None)) (\<lambda>_.
     seq (call env (SaveState trainer)) (\<lambda>_.
     let final_model_path = da_working_dir env @ ''/llm04_fine_tuning/'' @ checkpoint_name in
     seq (call env (SaveModel trainer (Some final_model_path))) (\<lambda>_.
     seq (call env (AutoModelForSeq2SeqLM_from_pretrained final_model_path None)) (\<lambda>fine_tuned_model.
     seq (call env (TokenizerCall tokenizer
            \<lparr>tok_text = review,
             text_target = None,
             return_tensors = ''pt'',
             truncation = True,
             padding = True\<rparr>)) (\<lambda>inputs.
     seq (call env (GetItem inputs ''input_ids'')) (\<lambda>input_ids.
     seq (call env (GetItem inputs ''attention_mask'')) (\<lambda>attention_mask.
     seq (call env (Generate fine_tuned_model input_ids attention_mask)) (\<lambda>pred.
     seq (call env (BatchDecode tokenizer pred True)) (\<lambda>decoded.
     seq (call env (DataFrame (zip review (items env decoded))
                      [''review'', ''classification''])) (\<lambda>pdf.
     seq (call env (Display pdf)) (\<lambda>_.
     ret ())))))))))))))))))))))))"

definition deepspeed_section :: "'o env \<Rightarrow> string \<Rightarrow> 'o \<Rightarrow> ('o, unit) cell" where
  "deepspeed_section env local_training_root imdb_ds =
     seq environment_setup (\<lambda>_. deepspeed_run env local_training_root imdb_ds)"

text \<open>\<^bold>\<open>Clean up Classroom\<close>: \<^verbatim>\<open>tmpdir.cleanup()\<close>.\<close>

definition clean_up_classroom :: "'o env \<Rightarrow> 'o \<Rightarrow> ('o, 'o) cell" where
  "clean_up_classroom env tmpdir = call env (Cleanup tmpdir)"

text \<open>
  The notebook, run from its first cell to its last: the assertion, then every other
  cell.
\<close>

definition remaining_cells :: "'o env \<Rightarrow> ('o, unit) cell" where
  "remaining_cells env =
     seq (classroom_setup env) (\<lambda>tmpdir.
     let local_training_root = tmpdir_name env tmpdir in
     seq (fine_tuning env local_training_root) (\<lambda>imdb_ds.
     seq (deepspeed_section env local_training_root imdb_ds) (\<lambda>_.
     seq (clean_up_classroom env tmpdir) (\<lambda>_.
     ret ()))))"

definition notebook :: "'o env \<Rightarrow> ('o, unit) cell" where
  "notebook env = seq (assert_gpu env) (\<lambda>_. remaining_cells env)"

subsection \<open>Reading the configuration dictionary\<close>

text \<open>\<^verbatim>\<open>d[k]\<close> on a dictionary literal, and a chain \<^verbatim>\<open>d[k1][k2]...\<close> of subscripts.\<close>

fun cfg_get :: "cfg \<Rightarrow> string \<Rightarrow> cfg option" where
  "cfg_get (CDict kvs) k = map_of kvs k"
| "cfg_get (CInt _) k = None"
| "cfg_get (CFloat _) k = None"
| "cfg_get (CStr _) k = None"
| "cfg_get (CBool _) k = None"

fun cfg_path :: "cfg \<Rightarrow> string list \<Rightarrow> cfg option" where
  "cfg_path c [] = Some c"
| "cfg_path c (k # ks) = (case cfg_get c k of None \<Rightarrow> None | Some c' \<Rightarrow> cfg_path c' ks)"

subsection \<open>The steps of a training pipeline\<close>

text \<open>
  The steps the specification names, and the step each library call belongs to.
  \<^verbatim>\<open>from_pretrained\<close> with \<^verbatim>\<open>cache_dir\<close> builds the pre-trained model, without it the
  notebook reloads what it saved; the subscripts \<^verbatim>\<open>["train"]\<close> and \<^verbatim>\<open>["test"]\<close>
  are arguments of the trainer, the other subscripts are arguments of \<^verbatim>\<open>generate\<close>.
  Magic commands, \<^verbatim>\<open>print\<close> and the temporary directory are not steps of a pipeline.
\<close>

datatype step =
  Load_dataset
| Load_tokenizer
| Map_tokenize
| Construct_training_configuration
| Construct_model
| Construct_trainer
| Train_model
| Save
| Reload
| Predict
| Display_result

fun step_of :: "'o event \<Rightarrow> step option" where
  "step_of (LoadDataset _) = Some Load_dataset"
| "step_of (AutoTokenizer_from_pretrained _ _) = Some Load_tokenizer"
| "step_of (DatasetMap _ _ _ _) = Some Map_tokenize"
| "step_of (TrainingArguments _) = Some Construct_training_configuration"
| "step_of (AutoModelForSeq2SeqLM_from_pretrained _ (Some _)) = Some Construct_model"
| "step_of (AutoModelForSeq2SeqLM_from_pretrained _ None) = Some Reload"
| "step_of (DataCollatorWithPadding _) = Some Construct_trainer"
| "step_of (GetItem _ k) =
     (if k = ''train'' \<or> k = ''test'' then Some Construct_trainer else Some Predict)"
| "step_of (Trainer _) = Some Construct_trainer"
| "step_of (Train _) = Some Train_model"
| "step_of (SaveModel _ _) = Some Save"
| "step_of (SaveState _) = Some Save"
| "step_of (TokenizerCall _ _) = Some Predict"
| "step_of (Generate _ _ _) = Some Predict"
| "step_of (BatchDecode _ _ _) = Some Display_result"
| "step_of (DataFrame _ _) = Some Display_result"
| "step_of (Display _) = Some Display_result"
| "step_of (Magic _ _) = None"
| "step_of (Print _) = None"
| "step_of TemporaryDirectory = None"
| "step_of (Cleanup _) = None"


text \<open>The step of each call of the two training runs, in the order of the source.\<close>

definition fine_tuning_steps :: "step option list" where
  "fine_tuning_steps =
     [Some Load_dataset, Some Load_tokenizer, Some Map_tokenize,
      Some Construct_training_configuration, Some Construct_model,
      Some Construct_trainer, Some Construct_trainer, Some Construct_trainer,
      Some Construct_trainer, None, None, Some Train_model, Some Save, Some Save, Some Save,
      Some Reload, Some Predict, Some Predict, Some Predict, Some Predict,
      Some Display_result, Some Display_result, Some Display_result]"

definition deepspeed_steps :: "step option list" where
  "deepspeed_steps =
     [Some Load_tokenizer, Some Map_tokenize, Some Construct_model,
      Some Construct_training_configuration,
      Some Construct_trainer, Some Construct_trainer, Some Construct_trainer,
      Some Construct_trainer, None, None, Some Train_model, Some Save, Some Save, Some Save,
      Some Reload, Some Predict, Some Predict, Some Predict, Some Predict,
      Some Display_result, Some Display_result, Some Display_result]"

subsection \<open>The shape of a run\<close>

text \<open>
  \<open>returned\<close> says that a call, or a cell, came back with a value.
  \<open>follows env cls ks m\<close> describes every run of the cell \<open>m\<close>: the calls it adds to
  the trace are answered by the libraries, their classes under \<open>cls\<close> are an initial
  segment of \<open>ks\<close>, every call but the last returned, a run that returns made all of
  \<open>ks\<close> with no call raising, and a run that raises raises the exception of its last
  call.
\<close>

definition returned :: "py_error + 'a \<Rightarrow> bool" where
  "returned r = (case r of Inl _ \<Rightarrow> False | Inr _ \<Rightarrow> True)"

definition follows ::
  "'o env \<Rightarrow> ('o event \<Rightarrow> 'k) \<Rightarrow> 'k list \<Rightarrow> ('o, 'a) cell \<Rightarrow> bool" where
  "follows env cls ks m \<longleftrightarrow>
     (\<forall>w. \<exists>new.
        trace (fst (m w)) = trace w @ new \<and>
        prefix (map (cls \<circ> fst) new) ks \<and>
        (\<forall>p \<in> set new. \<exists>v. snd p = lib env v (fst p)) \<and>
        (\<forall>p \<in> set (butlast new). returned (snd p)) \<and>
        (case snd (m w) of
           Inr _ \<Rightarrow> map (cls \<circ> fst) new = ks \<and> (\<forall>p \<in> set new. returned (snd p))
         | Inl e \<Rightarrow> new \<noteq> [] \<and> snd (last new) = Inl e))"




text \<open>
  \<open>checkpoints_then_persists env new lroot name\<close>: among the calls \<open>new\<close> there are a
  \<^verbatim>\<open>TrainingArguments\<close> whose output directory is \<^verbatim>\<open>os.path.join(lroot, name)\<close>, a
  trainer built with it, that trainer's \<^verbatim>\<open>train()\<close> and, later,
  \<^verbatim>\<open>save_model(output_dir=f"{DA.paths.working_dir}/llm04_fine_tuning/{name}")\<close> on the
  same trainer, all of which returned.
\<close>

definition checkpoints_then_persists ::
  "'o env \<Rightarrow> ('o event \<times> (py_error + 'o)) list \<Rightarrow> string \<Rightarrow> string \<Rightarrow> bool" where
  "checkpoints_then_persists env new lroot name \<longleftrightarrow>
     (\<exists>args training_args targs trainer i j r1 r2.
        (TrainingArguments args, Inr training_args) \<in> set new \<and>
        output_dir args = os_path_join lroot name \<and>
        (Trainer targs, Inr trainer) \<in> set new \<and>
        tr_args targs = training_args \<and>
        i < j \<and> j < length new \<and>
        new ! i = (Train trainer, Inr r1) \<and>
        new ! j = (SaveModel trainer
                     (Some (da_working_dir env @ ''/llm04_fine_tuning/'' @ name)), Inr r2))"

text \<open>
  \<open>trains_on_encodings env columns enc_fields new model_checkpoint\<close>: among the calls \<open>new\<close>
  there are the tokenizer loaded for \<open>model_checkpoint\<close>, a \<^verbatim>\<open>map\<close> of the closure of
  that tokenizer with \<^verbatim>\<open>batched=True\<close> and \<^verbatim>\<open>remove_columns=["text", "label"]\<close>, the
  subscripts \<^verbatim>\<open>["train"]\<close> and \<^verbatim>\<open>["test"]\<close> of its result, and a trainer whose training
  and evaluation datasets are the results of these subscripts; and every column of the
  mapped dataset and of the two splits is a field of a batch encoding that this
  tokenizer returned. \<open>columns\<close> reads the column names of a dataset object and
  \<open>enc_fields\<close> the keys of a batch encoding.
\<close>

definition trains_on_encodings ::
  "'o env \<Rightarrow> ('o \<Rightarrow> string set) \<Rightarrow> ('o \<Rightarrow> string set) \<Rightarrow>
   ('o event \<times> (py_error + 'o)) list \<Rightarrow> string \<Rightarrow> bool" where
  "trains_on_encodings env columns enc_fields new model_checkpoint \<longleftrightarrow>
     (\<exists>tokenizer imdb_ds tokenized_dataset targs trainer.
        (AutoTokenizer_from_pretrained model_checkpoint (Some (da_datasets env)), Inr tokenizer)
          \<in> set new \<and>
        (DatasetMap imdb_ds (to_tokens tokenizer imdb_label_lookup) True [''text'', ''label''],
           Inr tokenized_dataset) \<in> set new \<and>
        (GetItem tokenized_dataset ''train'', Inr (train_dataset targs)) \<in> set new \<and>
        (GetItem tokenized_dataset ''test'', Inr (eval_dataset targs)) \<in> set new \<and>
        (Trainer targs, Inr trainer) \<in> set new \<and>
        (\<forall>c \<in> columns tokenized_dataset \<union> columns (train_dataset targs) \<union>
               columns (eval_dataset targs).
           \<exists>args v enc. lib env v (TokenizerCall tokenizer args) = Inr enc \<and> c \<in> enc_fields enc))"

text \<open>A cell that leaves \<^verbatim>\<open>os.environ\<close> as it found it.\<close>

definition keeps_environ :: "('o, 'a) cell \<Rightarrow> bool" where
  "keeps_environ m \<longleftrightarrow> (\<forall>w. environ (fst (m w)) = environ w)"

subsection \<open>Concrete runs\<close>

text \<open>
  A cluster with a GPU runtime and libraries that never raise: every call returns a
  fresh handle, the number of calls made before it.
\<close>

definition demo_env :: "nat env" where
  "demo_env =
     \<lparr>spark_version = ''13.3.x-gpu-ml-scala2.12'',
      da_username = ''student'',
      da_working_dir = ''dbfs:/mnt/dbacademy-users/student/llm'',
      da_datasets = ''dbfs:/mnt/dbacademy-datasets/llm'',
      lib = (\<lambda>w ev. Inr (length (trace w))),
      tmpdir_name = (\<lambda>_. ''/tmp/tmpk3v9x2ab''),
      items = (\<lambda>_. [''negative'', ''positive'', ''negative'', ''positive''])\<rparr>"

definition demo_world :: "nat world" where
  "demo_world = \<lparr>trace = [], environ = Map.empty\<rparr>"

text \<open>The same cluster with a runtime that has no GPU.\<close>

definition cpu_env :: "nat env" where
  "cpu_env = demo_env\<lparr>spark_version := ''13.3.x-cpu-ml-scala2.12''\<rparr>"

text \<open>The same cluster with a trainer that runs out of memory.\<close>

definition oom_env :: "nat env" where
  "oom_env = demo_env
     \<lparr>lib := (\<lambda>w ev. case ev of
                      Train _ \<Rightarrow> Inl (LibraryError ''CUDA out of memory'')
                    | _ \<Rightarrow> Inr (length (trace w)))\<rparr>"

text \<open>
  Libraries whose objects are the lists of their column or field names: the IMDB
  dataset has the columns "text" and "label", \<^verbatim>\<open>map\<close> drops the columns it is asked to
  remove and adds the fields of the tokenizer's encoding, a split has the columns of its
  dataset.
\<close>

definition col_env :: "string list env" where
  "col_env =
     \<lparr>spark_version = ''13.3.x-gpu-ml-scala2.12'',
      da_username = ''student'',
      da_working_dir = ''dbfs:/mnt/dbacademy-users/student/llm'',
      da_datasets = ''dbfs:/mnt/dbacademy-datasets/llm'',
      lib = (\<lambda>w ev. case ev of
                 LoadDataset _ \<Rightarrow> Inr [''text'', ''label'']
               | DatasetMap ds f b rc \<Rightarrow>
                   Inr (filter (\<lambda>c. c \<notin> set rc) ds @
                        [''input_ids'', ''attention_mask'', ''labels''])
               | GetItem ds k \<Rightarrow> Inr ds
               | TokenizerCall tok args \<Rightarrow> Inr [''input_ids'', ''attention_mask'', ''labels'']
               | _ \<Rightarrow> Inr []),
      tmpdir_name = (\<lambda>_. ''/tmp/tmpk3v9x2ab''),
      items = (\<lambda>_. [''negative''])\<rparr>"

definition col_world :: "string list world" where
  "col_world = \<lparr>trace = [], environ = Map.empty\<rparr>"



section \<open>Sequencing and calls\<close>

lemma call_eq: "call env ev w = (w\<lparr>trace := trace w @ [(ev, lib env w ev)]\<rparr>, lib env w ev)"
  by (simp add: call_def Let_def)

lemma seq_Inl: "m w = (w1, Inl e) \<Longrightarrow> seq m f w = (w1, Inl e)"
  by (simp add: seq_def)

lemma seq_Inr: "m w = (w1, Inr x) \<Longrightarrow> seq m f w = f x w1"
  by (simp add: seq_def)

lemma seq_call_InrE:
  assumes "seq (call env ev) f w = (w', Inr y)"
  obtains x w1 where "trace w1 = trace w @ [(ev, Inr x)]" "environ w1 = environ w"
    "f x w1 = (w', Inr y)"
proof (cases "lib env w ev")
  case (Inl e)
  with assms show ?thesis by (simp add: seq_def call_eq)
next
  case (Inr x)
  with assms have "f x (w\<lparr>trace := trace w @ [(ev, Inr x)]\<rparr>) = (w', Inr y)"
    by (simp add: seq_def call_eq)
  then show ?thesis by (rule that[rotated 2]) simp_all
qed

lemma call_InrE:
  assumes "call env ev w = (w', Inr y)"
  obtains "trace w' = trace w @ [(ev, Inr y)]" "environ w' = environ w"
  using assms by (auto simp: call_eq)

lemma ret_InrE:
  assumes "ret x w = (w', Inr y)"
  obtains "w' = w" "y = x"
  using assms by (auto simp: ret_def)

lemma seq_InrE:
  assumes "seq m f w = (w', Inr y)"
  obtains x w1 where "m w = (w1, Inr x)" "f x w1 = (w', Inr y)"
  using assms by (auto simp: seq_def split: prod.splits sum.splits)

section \<open>The shape of every run\<close>

lemma follows_ret: "follows env cls [] (ret x)"
  by (simp add: follows_def ret_def)

lemma follows_setenv: "follows env cls [] (setenv k v)"
  by (simp add: follows_def setenv_def)

lemma follows_call:
  assumes "cls ev = k"
  shows "follows env cls [k] (call env ev)"
  unfolding follows_def
proof
  fix w
  show "\<exists>new. trace (fst (call env ev w)) = trace w @ new \<and>
        prefix (map (cls \<circ> fst) new) [k] \<and>
        (\<forall>p \<in> set new. \<exists>v. snd p = lib env v (fst p)) \<and>
        (\<forall>p \<in> set (butlast new). returned (snd p)) \<and>
        (case snd (call env ev w) of
           Inr _ \<Rightarrow> map (cls \<circ> fst) new = [k] \<and> (\<forall>p \<in> set new. returned (snd p))
         | Inl e \<Rightarrow> new \<noteq> [] \<and> snd (last new) = Inl e)"
  proof (intro exI[of _ "[(ev, lib env w ev)]"] conjI)
    show "\<forall>p \<in> set [(ev, lib env w ev)]. \<exists>v. snd p = lib env v (fst p)"
      by auto
    show "case snd (call env ev w) of
           Inr _ \<Rightarrow> map (cls \<circ> fst) [(ev, lib env w ev)] = [k] \<and>
                    (\<forall>p \<in> set [(ev, lib env w ev)]. returned (snd p))
         | Inl e \<Rightarrow> [(ev, lib env w ev)] \<noteq> [] \<and> snd (last [(ev, lib env w ev)]) = Inl e"
      using assms by (simp add: call_eq returned_def split: sum.splits)
  qed (simp_all add: call_eq assms)
qed

lemma follows_seq:
  assumes m: "follows env cls ks1 m" and f: "\<And>x. follows env cls ks2 (f x)"
  shows "follows env cls (ks1 @ ks2) (seq m f)"
  unfolding follows_def
proof
  fix w
  from m obtain new1 where n1: "trace (fst (m w)) = trace w @ new1"
      "prefix (map (cls \<circ> fst) new1) ks1"
      "\<forall>p \<in> set new1. \<exists>v. snd p = lib env v (fst p)"
      "\<forall>p \<in> set (butlast new1). returned (snd p)"
      "case snd (m w) of
           Inr _ \<Rightarrow> map (cls \<circ> fst) new1 = ks1 \<and> (\<forall>p \<in> set new1. returned (snd p))
         | Inl e \<Rightarrow> new1 \<noteq> [] \<and> snd (last new1) = Inl e"
    unfolding follows_def by blast
  show "\<exists>new. trace (fst (seq m f w)) = trace w @ new \<and>
        prefix (map (cls \<circ> fst) new) (ks1 @ ks2) \<and>
        (\<forall>p \<in> set new. \<exists>v. snd p = lib env v (fst p)) \<and>
        (\<forall>p \<in> set (butlast new). returned (snd p)) \<and>
        (case snd (seq m f w) of
           Inr _ \<Rightarrow> map (cls \<circ> fst) new = ks1 @ ks2 \<and> (\<forall>p \<in> set new. returned (snd p))
         | Inl e \<Rightarrow> new \<noteq> [] \<and> snd (last new) = Inl e)"
  proof (cases "snd (m w)")
    case (Inl e)
    then have "seq m f w = (fst (m w), Inl e)"
      by (intro seq_Inl) (simp add: prod_eq_iff)
    with n1 Inl show ?thesis
      by (intro exI[of _ new1]) (auto simp: prefix_def)
  next
    case (Inr x)
    let ?w1 = "fst (m w)"
    from Inr have s: "seq m f w = f x ?w1"
      by (intro seq_Inr) (simp add: prod_eq_iff)
    from f[of x] obtain new2 where n2: "trace (fst (f x ?w1)) = trace ?w1 @ new2"
      "prefix (map (cls \<circ> fst) new2) ks2"
      "\<forall>p \<in> set new2. \<exists>v. snd p = lib env v (fst p)"
      "\<forall>p \<in> set (butlast new2). returned (snd p)"
      "case snd (f x ?w1) of
           Inr _ \<Rightarrow> map (cls \<circ> fst) new2 = ks2 \<and> (\<forall>p \<in> set new2. returned (snd p))
         | Inl e \<Rightarrow> new2 \<noteq> [] \<and> snd (last new2) = Inl e"
      unfolding follows_def by blast
    from n1 Inr have all1: "map (cls \<circ> fst) new1 = ks1" "\<forall>p \<in> set new1. returned (snd p)"
      by simp_all
    have bl: "\<forall>p \<in> set (butlast (new1 @ new2)). returned (snd p)"
      using all1(2) n2(4) by (auto simp: butlast_append split: if_splits dest: in_set_butlastD)
    show ?thesis
      unfolding s
    proof (intro exI[of _ "new1 @ new2"] conjI)
      show "trace (fst (f x ?w1)) = trace w @ new1 @ new2"
        using n1(1) n2(1) by simp
      show "prefix (map (cls \<circ> fst) (new1 @ new2)) (ks1 @ ks2)"
        using all1(1) n2(2) by simp
      show "\<forall>p \<in> set (new1 @ new2). \<exists>v. snd p = lib env v (fst p)"
        using n1(3) n2(3) by auto
      show "\<forall>p \<in> set (butlast (new1 @ new2)). returned (snd p)"
        using bl .
      show "case snd (f x ?w1) of
           Inr _ \<Rightarrow> map (cls \<circ> fst) (new1 @ new2) = ks1 @ ks2 \<and>
                    (\<forall>p \<in> set (new1 @ new2). returned (snd p))
         | Inl e \<Rightarrow> new1 @ new2 \<noteq> [] \<and> snd (last (new1 @ new2)) = Inl e"
        using n2(5) all1 by (auto split: sum.splits)
    qed
  qed
qed

lemma follows_seq_call:
  assumes "cls ev = k" and "\<And>x. follows env cls ks (f x)"
  shows "follows env cls (k # ks) (seq (call env ev) f)"
proof -
  have "follows env cls [k] (call env ev)"
    using assms(1) by (rule follows_call)
  then have "follows env cls ([k] @ ks) (seq (call env ev) f)"
    using assms(2) by (rule follows_seq)
  then show ?thesis by simp
qed

lemma follows_seq_setenv:
  assumes "\<And>x. follows env cls ks (f x)"
  shows "follows env cls ks (seq (setenv k v) f)"
  using follows_seq[OF follows_setenv, of env cls ks f k v] assms by simp

lemma classroom_setup_follows:
  "follows env step_of [None, None, None, None, None, None, None, None] (classroom_setup env)"
  unfolding classroom_setup_def
  by (intro follows_seq_call follows_call; simp)

lemma fine_tuning_follows:
  "follows env step_of fine_tuning_steps (fine_tuning env lroot)"
  unfolding fine_tuning_def fine_tuning_steps_def Let_def
  by (intro follows_seq_call follows_ret; simp)

lemma deepspeed_run_follows:
  "follows env step_of deepspeed_steps (deepspeed_run env lroot imdb_ds)"
  unfolding deepspeed_run_def deepspeed_steps_def Let_def
  by (intro follows_seq_call follows_ret; simp)

lemma environment_setup_follows: "follows env cls [] environment_setup"
  unfolding environment_setup_def
  by (intro follows_seq_setenv follows_setenv)

lemma deepspeed_section_follows:
  "follows env step_of deepspeed_steps (deepspeed_section env lroot imdb_ds)"
proof -
  have "follows env step_of ([] @ deepspeed_steps)
     (seq environment_setup (\<lambda>_. deepspeed_run env lroot imdb_ds))"
    by (intro follows_seq environment_setup_follows deepspeed_run_follows)
  then show ?thesis
    by (simp add: deepspeed_section_def)
qed

lemma after_setup_follows:
  "follows env step_of (fine_tuning_steps @ deepspeed_steps @ [None] @ [])
     (seq (fine_tuning env lroot) (\<lambda>imdb_ds.
      seq (deepspeed_section env lroot imdb_ds) (\<lambda>_.
      seq (clean_up_classroom env tmpdir) (\<lambda>_.
      ret ()))))"
  unfolding clean_up_classroom_def
  by (intro follows_seq fine_tuning_follows deepspeed_section_follows follows_call follows_ret)
     simp

lemma remaining_cells_follows:
  "follows env step_of
     ([None, None, None, None, None, None, None, None] @
      fine_tuning_steps @ deepspeed_steps @ [None] @ [])
     (remaining_cells env)"
  unfolding remaining_cells_def Let_def
  by (intro follows_seq classroom_setup_follows after_setup_follows)



section \<open>The tokenization closure\<close>

lemma lookup_labels_Inr:
  "set ys \<subseteq> dom label_map \<Longrightarrow> lookup_labels label_map ys = Inr (map (the \<circ> label_map) ys)"
  by (induction ys) auto

lemma lookup_labels_Inl:
  "\<not> set ys \<subseteq> dom label_map \<Longrightarrow>
   \<exists>k. k \<in> set ys \<and> k \<notin> dom label_map \<and> lookup_labels label_map ys = Inl (KeyError k)"
proof (induction ys)
  case Nil
  then show ?case by simp
next
  case (Cons y ys)
  show ?case
  proof (cases "label_map y")
    case None
    then show ?thesis by (auto intro: exI[of _ y])
  next
    case (Some s)
    with Cons.prems have "\<not> set ys \<subseteq> dom label_map" by auto
    from Cons.IH[OF this] obtain k where "k \<in> set ys" "k \<notin> dom label_map"
      "lookup_labels label_map ys = Inl (KeyError k)" by blast
    with Some show ?thesis by (auto intro: exI[of _ k])
  qed
qed

lemma dom_imdb_label_lookup: "dom imdb_label_lookup = {-1, 0, 1}"
  by (auto simp: imdb_label_lookup_def split: if_splits)

text \<open>
  C1. For every batch \<open>x\<close> handed to the closure of
  \<^verbatim>\<open>to_tokens(tokenizer, imdb_label_lookup)\<close>: the closure returns a batch encoding only
  if every label id of \<open>x\<close> is 0, 1 or -1, and for such a batch it is exactly one call
  of the tokenizer on \<^verbatim>\<open>x["text"]\<close> whose text targets are the label ids translated
  position by position, 0 to "negative", 1 to "positive", -1 to "unknown".
\<close>

theorem to_tokens_translates_labels:
  "(set (label_column x) \<subseteq> {0, 1, -1} \<longrightarrow>
      (\<exists>targets.
         length targets = length (label_column x) \<and>
         (\<forall>i < length (label_column x).
            (label_column x ! i = 0 \<longrightarrow> targets ! i = ''negative'') \<and>
            (label_column x ! i = 1 \<longrightarrow> targets ! i = ''positive'') \<and>
            (label_column x ! i = -1 \<longrightarrow> targets ! i = ''unknown'')) \<and>
         apply_closure env (to_tokens tokenizer imdb_label_lookup) x w =
           call env (TokenizerCall tokenizer
             \<lparr>tok_text = text_column x,
              text_target = Some targets,
              return_tensors = ''pt'',
              truncation = True,
              padding = True\<rparr>) w)) \<and>
   (\<forall>w' enc. apply_closure env (to_tokens tokenizer imdb_label_lookup) x w = (w', Inr enc)
      \<longrightarrow> set (label_column x) \<subseteq> {0, 1, -1})"
proof (intro conjI impI allI)
  assume valid: "set (label_column x) \<subseteq> {0, 1, -1}"
  let ?targets = "map (the \<circ> imdb_label_lookup) (label_column x)"
  from valid have "set (label_column x) \<subseteq> dom imdb_label_lookup"
    by (auto simp: dom_imdb_label_lookup)
  then have l: "lookup_labels imdb_label_lookup (label_column x) = Inr ?targets"
    by (rule lookup_labels_Inr)
  show "\<exists>targets.
         length targets = length (label_column x) \<and>
         (\<forall>i < length (label_column x).
            (label_column x ! i = 0 \<longrightarrow> targets ! i = ''negative'') \<and>
            (label_column x ! i = 1 \<longrightarrow> targets ! i = ''positive'') \<and>
            (label_column x ! i = -1 \<longrightarrow> targets ! i = ''unknown'')) \<and>
         apply_closure env (to_tokens tokenizer imdb_label_lookup) x w =
           call env (TokenizerCall tokenizer
             \<lparr>tok_text = text_column x,
              text_target = Some targets,
              return_tensors = ''pt'',
              truncation = True,
              padding = True\<rparr>) w"
  proof (intro exI[of _ ?targets] conjI allI impI)
    fix i
    assume "i < length (label_column x)"
    then have "label_column x ! i \<in> {0, 1, -1}"
      using valid nth_mem by blast
    then show "?targets ! i = ''negative''" if "label_column x ! i = 0"
      using that \<open>i < length (label_column x)\<close> by (simp add: imdb_label_lookup_def)
    show "?targets ! i = ''positive''" if "label_column x ! i = 1"
      using that \<open>i < length (label_column x)\<close> by (simp add: imdb_label_lookup_def)
    show "?targets ! i = ''unknown''" if "label_column x ! i = -1"
      using that \<open>i < length (label_column x)\<close> by (simp add: imdb_label_lookup_def)
  qed (simp_all add: to_tokens_def l)
next
  fix w' enc
  assume r: "apply_closure env (to_tokens tokenizer imdb_label_lookup) x w = (w', Inr enc)"
  show "set (label_column x) \<subseteq> {0, 1, -1}"
  proof (rule ccontr)
    assume "\<not> set (label_column x) \<subseteq> {0, 1, -1}"
    then have "\<not> set (label_column x) \<subseteq> dom imdb_label_lookup"
      by (auto simp: dom_imdb_label_lookup)
    from lookup_labels_Inl[OF this] r show False
      by (auto simp: to_tokens_def raise_def)
  qed
qed

theorem to_tokens_translates_labels_witness:
  "set (label_column \<lparr>text_column = [''a fine film'', ''a dull film''], label_column = [1, 0]\<rparr>)
     \<subseteq> {0, 1, -1} \<and>
   (\<exists>targets.
      length targets = 2 \<and>
      targets ! 0 = ''positive'' \<and> targets ! 1 = ''negative'' \<and>
      apply_closure demo_env (to_tokens 7 imdb_label_lookup)
        \<lparr>text_column = [''a fine film'', ''a dull film''], label_column = [1, 0]\<rparr> demo_world =
      (\<lparr>trace = [(TokenizerCall 7
                     \<lparr>tok_text = [''a fine film'', ''a dull film''],
                      text_target = Some targets,
                      return_tensors = ''pt'',
                      truncation = True,
                      padding = True\<rparr>, Inr 0)],
         environ = Map.empty\<rparr>, Inr 0))"
  using to_tokens_translates_labels
    [of "\<lparr>text_column = [''a fine film'', ''a dull film''], label_column = [1, 0]\<rparr>"
        demo_env 7 demo_world]
  by (auto simp: call_eq demo_env_def demo_world_def)

text \<open>
  C9. The label lookup table has exactly the keys -1, 0 and 1; on a batch whose label
  column holds any other value the closure raises \<^verbatim>\<open>KeyError\<close> for such a value and
  leaves the world as it was: the tokenizer is not called and no batch encoding is
  produced.
\<close>

theorem to_tokens_key_error:
  "dom imdb_label_lookup = {-1, 0, 1} \<and>
   (\<not> set (label_column x) \<subseteq> {-1, 0, 1} \<longrightarrow>
      (\<exists>k. k \<in> set (label_column x) \<and> k \<notin> {-1, 0, 1} \<and>
           apply_closure env (to_tokens tokenizer imdb_label_lookup) x w =
             (w, Inl (KeyError k))))"
proof (intro conjI impI)
  show "dom imdb_label_lookup = {-1, 0, 1}"
    by (rule dom_imdb_label_lookup)
next
  assume "\<not> set (label_column x) \<subseteq> {-1, 0, 1}"
  then have "\<not> set (label_column x) \<subseteq> dom imdb_label_lookup"
    by (simp add: dom_imdb_label_lookup)
  from lookup_labels_Inl[OF this] obtain k where k: "k \<in> set (label_column x)"
    "k \<notin> dom imdb_label_lookup"
    "lookup_labels imdb_label_lookup (label_column x) = Inl (KeyError k)" by blast
  show "\<exists>k. k \<in> set (label_column x) \<and> k \<notin> {-1, 0, 1} \<and>
           apply_closure env (to_tokens tokenizer imdb_label_lookup) x w =
             (w, Inl (KeyError k))"
    using k by (intro exI[of _ k]) (simp add: dom_imdb_label_lookup to_tokens_def raise_def)
qed

theorem to_tokens_key_error_witness:
  "\<not> set (label_column \<lparr>text_column = [''a fine film'', ''a dull film''], label_column = [1, 2]\<rparr>)
       \<subseteq> {-1, 0, 1} \<and>
   apply_closure demo_env (to_tokens 7 imdb_label_lookup)
     \<lparr>text_column = [''a fine film'', ''a dull film''], label_column = [1, 2]\<rparr> demo_world =
   (demo_world, Inl (KeyError 2))"
  using to_tokens_key_error
    [of "\<lparr>text_column = [''a fine film'', ''a dull film''], label_column = [1, 2]\<rparr>"
        demo_env 7 demo_world]
  by auto



section \<open>The assertion and the propagation of failures\<close>

lemma py_in_iff: "py_in sub s \<longleftrightarrow> (\<exists>ps ss. s = ps @ sub @ ss)"
proof -
  have "py_in sub s \<longleftrightarrow> sublist sub s"
    by (induction s) (simp_all add: sublist_Cons_right)
  then show ?thesis by (simp add: sublist_def)
qed

lemma notebook_no_gpu:
  "\<not> py_in ''gpu'' (spark_version env) \<Longrightarrow>
   notebook env w = (w, Inl (AssertionError gpu_message))"
  by (simp add: notebook_def assert_gpu_def seq_def raise_def)

lemma notebook_gpu:
  "py_in ''gpu'' (spark_version env) \<Longrightarrow> notebook env w = remaining_cells env w"
  by (simp add: notebook_def assert_gpu_def seq_def ret_def)

lemma follows_completes:
  assumes "follows env cls ks m" and "\<forall>v ev. returned (lib env v ev)"
  shows "returned (snd (m w))"
proof (cases "snd (m w)")
  case (Inl e)
  from assms(1) obtain new where
    "\<forall>p \<in> set new. \<exists>v. snd p = lib env v (fst p)"
    "case snd (m w) of
       Inr _ \<Rightarrow> map (cls \<circ> fst) new = ks \<and> (\<forall>p \<in> set new. returned (snd p))
     | Inl e \<Rightarrow> new \<noteq> [] \<and> snd (last new) = Inl e"
    unfolding follows_def by blast
  with Inl have ne: "new \<noteq> []" and l: "snd (last new) = Inl e"
    and a: "\<forall>p \<in> set new. \<exists>v. snd p = lib env v (fst p)"
    by simp_all
  from ne have "last new \<in> set new" by simp
  with a obtain v where "snd (last new) = lib env v (fst (last new))"
    by blast
  with l have "lib env v (fst (last new)) = Inl e"
    by simp
  moreover have "returned (lib env v (fst (last new)))"
    using assms(2) by blast
  ultimately show ?thesis by (simp add: returned_def)
next
  case (Inr x)
  then show ?thesis by (simp add: returned_def)
qed

lemma notebook_completes:
  assumes "py_in ''gpu'' (spark_version env)" and "\<forall>v ev. returned (lib env v ev)"
  shows "snd (notebook env w) = Inr ()"
proof -
  have "returned (snd (remaining_cells env w))"
    using remaining_cells_follows assms(2) by (rule follows_completes)
  then show ?thesis
    using assms(1) by (simp add: notebook_gpu returned_def split: sum.splits)
qed

lemma seq_call_first:
  assumes "\<And>x. follows env cls ks (f x)"
  shows "\<exists>r rest. trace (fst (seq (call env ev) f w)) = trace w @ (ev, r) # rest"
proof (cases "lib env w ev")
  case (Inl e)
  then show ?thesis by (simp add: seq_def call_eq)
next
  case (Inr x)
  let ?w1 = "w\<lparr>trace := trace w @ [(ev, Inr x)]\<rparr>"
  from assms[of x] obtain new where "trace (fst (f x ?w1)) = trace ?w1 @ new"
    unfolding follows_def by blast
  with Inr show ?thesis by (simp add: seq_def call_eq)
qed

lemma seq_first:
  assumes "\<exists>r rest. trace (fst (m w)) = trace w @ (ev, r) # rest"
    and "\<And>x. follows env cls ks (f x)"
  shows "\<exists>r rest. trace (fst (seq m f w)) = trace w @ (ev, r) # rest"
proof (cases "snd (m w)")
  case (Inl e)
  then have "seq m f w = (fst (m w), Inl e)"
    by (intro seq_Inl) (simp add: prod_eq_iff)
  with assms(1) show ?thesis by simp
next
  case (Inr x)
  then have s: "seq m f w = f x (fst (m w))"
    by (intro seq_Inr) (simp add: prod_eq_iff)
  from assms(2)[of x] obtain new where
    "trace (fst (f x (fst (m w)))) = trace (fst (m w)) @ new"
    unfolding follows_def by blast
  with assms(1) s show ?thesis by auto
qed

lemma remaining_cells_first:
  "\<exists>r rest. trace (fst (remaining_cells env w)) = trace w @ (Magic ''%sh'' sh_lines, r) # rest"
proof -
  have "\<exists>r rest. trace (fst (classroom_setup env w)) = trace w @ (Magic ''%sh'' sh_lines, r) # rest"
    unfolding classroom_setup_def
    by (rule seq_call_first[where cls = step_of and ks = "[None, None, None, None, None, None, None]"])
       (intro follows_seq_call follows_call; simp)
  then show ?thesis
    unfolding remaining_cells_def Let_def
    by (rule seq_first) (rule after_setup_follows)
qed

text \<open>
  C2. The notebook opens with one assertion: the substring "gpu" occurs in the Spark
  runtime version. For a version without it the run stops there, before any other cell,
  with \<^verbatim>\<open>AssertionError\<close> and the message of the source. For a version with it the run
  goes on with the remaining cells, the first of which is the \<^verbatim>\<open>%sh\<close> cell, and no other
  check of the notebook can stop it: with libraries that never raise, it runs to its end.
\<close>

theorem gpu_assertion:
  "(\<not> (\<exists>ps ss. spark_version env = ps @ ''gpu'' @ ss) \<longrightarrow>
      notebook env w =
        (w, Inl (AssertionError
                   ''THIS LAB REQUIRES THAT A GPU MACHINE AND RUNTIME IS UTILIZED.''))) \<and>
   ((\<exists>ps ss. spark_version env = ps @ ''gpu'' @ ss) \<longrightarrow>
      notebook env w = remaining_cells env w \<and>
      (\<exists>r rest. trace (fst (notebook env w)) = trace w @ (Magic ''%sh'' sh_lines, r) # rest) \<and>
      ((\<forall>v ev. returned (lib env v ev)) \<longrightarrow> snd (notebook env w) = Inr ()))"
proof (intro conjI impI)
  assume "\<not> (\<exists>ps ss. spark_version env = ps @ ''gpu'' @ ss)"
  then have "\<not> py_in ''gpu'' (spark_version env)"
    by (simp only: py_in_iff not_False_eq_True)
  then show "notebook env w =
        (w, Inl (AssertionError
                   ''THIS LAB REQUIRES THAT A GPU MACHINE AND RUNTIME IS UTILIZED.''))"
    by (simp add: notebook_no_gpu gpu_message_def)
next
  assume "\<exists>ps ss. spark_version env = ps @ ''gpu'' @ ss"
  then have g: "py_in ''gpu'' (spark_version env)"
    by (simp only: py_in_iff)
  then show "notebook env w = remaining_cells env w"
    by (rule notebook_gpu)
  then show "\<exists>r rest. trace (fst (notebook env w)) = trace w @ (Magic ''%sh'' sh_lines, r) # rest"
    using remaining_cells_first by simp
  show "snd (notebook env w) = Inr ()" if "\<forall>v ev. returned (lib env v ev)"
    using g that by (rule notebook_completes)
qed

lemma demo_gpu: "py_in ''gpu'' (spark_version demo_env)"
  by (simp add: demo_env_def)

lemma demo_lib_returns: "\<forall>v ev. returned (lib demo_env v ev)"
  by (simp add: demo_env_def returned_def)

lemma cpu_no_gpu: "\<not> py_in ''gpu'' (spark_version cpu_env)"
  by (simp add: cpu_env_def demo_env_def)

theorem gpu_assertion_witness:
  "\<not> (\<exists>ps ss. spark_version cpu_env = ps @ ''gpu'' @ ss) \<and>
   notebook cpu_env demo_world =
     (demo_world, Inl (AssertionError
                  ''THIS LAB REQUIRES THAT A GPU MACHINE AND RUNTIME IS UTILIZED.'')) \<and>
   (\<exists>ps ss. spark_version demo_env = ps @ ''gpu'' @ ss) \<and>
   (\<exists>r rest. trace (fst (notebook demo_env demo_world)) =
      trace demo_world @ (Magic ''%sh'' sh_lines, r) # rest) \<and>
   snd (notebook demo_env demo_world) = Inr ()"
proof -
  have c: "\<not> (\<exists>ps ss. spark_version cpu_env = ps @ ''gpu'' @ ss)"
    using cpu_no_gpu unfolding py_in_iff .
  have d: "\<exists>ps ss. spark_version demo_env = ps @ ''gpu'' @ ss"
    using demo_gpu unfolding py_in_iff .
  from c gpu_assertion[of cpu_env demo_world]
  have "notebook cpu_env demo_world =
     (demo_world, Inl (AssertionError
                  ''THIS LAB REQUIRES THAT A GPU MACHINE AND RUNTIME IS UTILIZED.''))"
    by blast
  moreover from d demo_lib_returns gpu_assertion[of demo_env demo_world]
  have "(\<exists>r rest. trace (fst (notebook demo_env demo_world)) =
      trace demo_world @ (Magic ''%sh'' sh_lines, r) # rest) \<and>
    snd (notebook demo_env demo_world) = Inr ()"
    by blast
  ultimately show ?thesis
    using c d by blast
qed

text \<open>
  C8. The notebook handles no exception. In every run, each recorded answer is the
  library's own; a call is made only after every earlier call returned, so nothing is
  retried and the run does not go on past a failure; a run that raises raises the
  exception of its last call as the library raised it, unless it is the GPU assertion,
  raised before any call; and a run that returns had no call raise. (The comment on
  \<^verbatim>\<open>MASTER_PORT\<close>, "modify if RuntimeError: Address already in use", is not code: the
  model has the assignment only.)
\<close>

theorem failures_propagate_unmodified:
  "\<exists>new. trace (fst (notebook env w)) = trace w @ new \<and>
     (\<forall>p \<in> set new. \<exists>v. snd p = lib env v (fst p)) \<and>
     (\<forall>p \<in> set (butlast new). returned (snd p)) \<and>
     (case snd (notebook env w) of
        Inr _ \<Rightarrow> \<forall>p \<in> set new. returned (snd p)
      | Inl e \<Rightarrow>
          (new \<noteq> [] \<and> snd (last new) = Inl e) \<or>
          (new = [] \<and> e = AssertionError gpu_message \<and>
           \<not> py_in ''gpu'' (spark_version env)))"
proof (cases "py_in ''gpu'' (spark_version env)")
  case False
  then have "notebook env w = (w, Inl (AssertionError gpu_message))"
    by (rule notebook_no_gpu)
  with False show ?thesis by simp
next
  case True
  then have n: "notebook env w = remaining_cells env w"
    by (rule notebook_gpu)
  from remaining_cells_follows[of env]
  obtain new where new: "trace (fst (remaining_cells env w)) = trace w @ new"
    "\<forall>p \<in> set new. \<exists>v. snd p = lib env v (fst p)"
    "\<forall>p \<in> set (butlast new). returned (snd p)"
    "case snd (remaining_cells env w) of
       Inr _ \<Rightarrow> (\<forall>p \<in> set new. returned (snd p))
     | Inl e \<Rightarrow> new \<noteq> [] \<and> snd (last new) = Inl e"
    unfolding follows_def by (fastforce split: sum.splits)
  show ?thesis
    unfolding n
    using new by (intro exI[of _ new]) (auto split: sum.splits)
qed

lemma oom_run:
  "snd (notebook oom_env demo_world) = Inl (LibraryError ''CUDA out of memory'')"
  by (simp add: notebook_def remaining_cells_def classroom_setup_def fine_tuning_def
      assert_gpu_def seq_def call_eq ret_def Let_def oom_env_def demo_env_def demo_world_def)

theorem failures_propagate_unmodified_witness:
  "snd (notebook oom_env demo_world) = Inl (LibraryError ''CUDA out of memory'') \<and>
   (\<exists>new. trace (fst (notebook oom_env demo_world)) = trace demo_world @ new \<and>
      new \<noteq> [] \<and> snd (last new) = Inl (LibraryError ''CUDA out of memory'') \<and>
      (\<forall>p \<in> set (butlast new). returned (snd p)))"
  using failures_propagate_unmodified[of oom_env demo_world] oom_run
  by (auto simp: gpu_message_def)



section \<open>The process environment\<close>

lemma keeps_environ_ret: "keeps_environ (ret x)"
  by (simp add: keeps_environ_def ret_def)

lemma keeps_environ_call: "keeps_environ (call env ev)"
  by (simp add: keeps_environ_def call_eq)

lemma keeps_environ_seq:
  assumes "keeps_environ m" and "\<And>x. keeps_environ (f x)"
  shows "keeps_environ (seq m f)"
  unfolding keeps_environ_def
proof
  fix w
  show "environ (fst (seq m f w)) = environ w"
  proof (cases "snd (m w)")
    case (Inl e)
    then have "seq m f w = (fst (m w), Inl e)"
      by (intro seq_Inl) (simp add: prod_eq_iff)
    with assms(1) show ?thesis by (simp add: keeps_environ_def)
  next
    case (Inr x)
    then have "seq m f w = f x (fst (m w))"
      by (intro seq_Inr) (simp add: prod_eq_iff)
    with assms(1) assms(2)[of x] show ?thesis by (simp add: keeps_environ_def)
  qed
qed

lemma keeps_environ_classroom_setup: "keeps_environ (classroom_setup env)"
  unfolding classroom_setup_def
  by (intro keeps_environ_seq keeps_environ_call)

lemma keeps_environ_fine_tuning: "keeps_environ (fine_tuning env lroot)"
  unfolding fine_tuning_def Let_def
  by (intro keeps_environ_seq keeps_environ_call keeps_environ_ret)

lemma keeps_environ_deepspeed_run: "keeps_environ (deepspeed_run env lroot imdb_ds)"
  unfolding deepspeed_run_def Let_def
  by (intro keeps_environ_seq keeps_environ_call keeps_environ_ret)

lemma environment_setup_eq:
  "environment_setup w =
     (w\<lparr>environ := (environ w)
          (''MASTER_ADDR'' \<mapsto> ''localhost'', ''MASTER_PORT'' \<mapsto> ''9994'',
           ''RANK'' \<mapsto> ''0'', ''LOCAL_RANK'' \<mapsto> ''0'', ''WORLD_SIZE'' \<mapsto> ''1'')\<rparr>,
      Inr ())"
  by (simp add: environment_setup_def seq_def setenv_def)

lemma seq_environ:
  assumes "environ (fst (m w)) = E" and "\<And>x. keeps_environ (f x)"
  shows "environ (fst (seq m f w)) = E"
proof (cases "snd (m w)")
  case (Inl e)
  then have "seq m f w = (fst (m w), Inl e)"
    by (intro seq_Inl) (simp add: prod_eq_iff)
  with assms(1) show ?thesis by simp
next
  case (Inr x)
  then have "seq m f w = f x (fst (m w))"
    by (intro seq_Inr) (simp add: prod_eq_iff)
  with assms(1) assms(2)[of x] show ?thesis by (simp add: keeps_environ_def)
qed

lemma deepspeed_section_environ:
  "environ (fst (deepspeed_section env lroot imdb_ds w)) =
     (environ w)
       (''MASTER_ADDR'' \<mapsto> ''localhost'', ''MASTER_PORT'' \<mapsto> ''9994'',
        ''RANK'' \<mapsto> ''0'', ''LOCAL_RANK'' \<mapsto> ''0'', ''WORLD_SIZE'' \<mapsto> ''1'')"
  unfolding deepspeed_section_def
  by (rule seq_environ) (simp_all add: environment_setup_eq keeps_environ_deepspeed_run)

lemma seq_keeps_cases:
  assumes "keeps_environ m"
  shows "environ (fst (m w)) = environ w \<and>
    ((\<exists>e. seq m f w = (fst (m w), Inl e)) \<or> (\<exists>x. seq m f w = f x (fst (m w))))"
proof (cases "snd (m w)")
  case (Inl e)
  then have "seq m f w = (fst (m w), Inl e)"
    by (intro seq_Inl) (simp add: prod_eq_iff)
  then show ?thesis using assms by (auto simp: keeps_environ_def)
next
  case (Inr x)
  then have "seq m f w = f x (fst (m w))"
    by (intro seq_Inr) (simp add: prod_eq_iff)
  then show ?thesis using assms by (auto simp: keeps_environ_def)
qed

lemma after_setup_environ:
  "(environ (fst (seq (fine_tuning env lroot) (\<lambda>imdb_ds.
        seq (deepspeed_section env lroot imdb_ds) (\<lambda>_.
        seq (clean_up_classroom env tmpdir) (\<lambda>_. ret ()))) w)) = environ w \<and>
    \<not> returned (snd (seq (fine_tuning env lroot) (\<lambda>imdb_ds.
        seq (deepspeed_section env lroot imdb_ds) (\<lambda>_.
        seq (clean_up_classroom env tmpdir) (\<lambda>_. ret ()))) w))) \<or>
   environ (fst (seq (fine_tuning env lroot) (\<lambda>imdb_ds.
        seq (deepspeed_section env lroot imdb_ds) (\<lambda>_.
        seq (clean_up_classroom env tmpdir) (\<lambda>_. ret ()))) w)) =
     (environ w)
       (''MASTER_ADDR'' \<mapsto> ''localhost'', ''MASTER_PORT'' \<mapsto> ''9994'',
        ''RANK'' \<mapsto> ''0'', ''LOCAL_RANK'' \<mapsto> ''0'', ''WORLD_SIZE'' \<mapsto> ''1'')"
  (is "(environ (fst (seq _ ?g w)) = _ \<and> _) \<or> _")
proof -
  let ?w1 = "fst (fine_tuning env lroot w)"
  have k: "environ ?w1 = environ w"
    and c: "(\<exists>e. seq (fine_tuning env lroot) ?g w = (?w1, Inl e)) \<or>
            (\<exists>x. seq (fine_tuning env lroot) ?g w = ?g x ?w1)"
    using seq_keeps_cases[OF keeps_environ_fine_tuning, of env lroot w ?g] by blast+
  from c show ?thesis
  proof
    assume "\<exists>e. seq (fine_tuning env lroot) ?g w = (?w1, Inl e)"
    with k show ?thesis by (auto simp: returned_def)
  next
    assume "\<exists>x. seq (fine_tuning env lroot) ?g w = ?g x ?w1"
    then obtain imdb_ds where s: "seq (fine_tuning env lroot) ?g w = ?g imdb_ds ?w1"
      by blast
    have "environ (fst (?g imdb_ds ?w1)) =
          (environ ?w1)
            (''MASTER_ADDR'' \<mapsto> ''localhost'', ''MASTER_PORT'' \<mapsto> ''9994'',
             ''RANK'' \<mapsto> ''0'', ''LOCAL_RANK'' \<mapsto> ''0'', ''WORLD_SIZE'' \<mapsto> ''1'')"
      by (rule seq_environ[OF deepspeed_section_environ])
         (intro keeps_environ_seq keeps_environ_ret,
          simp add: clean_up_classroom_def keeps_environ_call)
    with s k show ?thesis by simp
  qed
qed

lemma remaining_cells_environ:
  "(environ (fst (remaining_cells env w)) = environ w \<and>
      \<not> returned (snd (remaining_cells env w))) \<or>
   environ (fst (remaining_cells env w)) =
     (environ w)
       (''MASTER_ADDR'' \<mapsto> ''localhost'', ''MASTER_PORT'' \<mapsto> ''9994'',
        ''RANK'' \<mapsto> ''0'', ''LOCAL_RANK'' \<mapsto> ''0'', ''WORLD_SIZE'' \<mapsto> ''1'')"
proof -
  let ?g = "\<lambda>tmpdir. seq (fine_tuning env (tmpdir_name env tmpdir)) (\<lambda>imdb_ds.
        seq (deepspeed_section env (tmpdir_name env tmpdir) imdb_ds) (\<lambda>_.
        seq (clean_up_classroom env tmpdir) (\<lambda>_. ret ())))"
  let ?w1 = "fst (classroom_setup env w)"
  have r: "remaining_cells env = seq (classroom_setup env) ?g"
    by (simp add: remaining_cells_def Let_def)
  have k: "environ ?w1 = environ w"
    and c: "(\<exists>e. seq (classroom_setup env) ?g w = (?w1, Inl e)) \<or>
            (\<exists>x. seq (classroom_setup env) ?g w = ?g x ?w1)"
    using seq_keeps_cases[OF keeps_environ_classroom_setup, of env w ?g] by blast+
  from c show ?thesis
  proof
    assume "\<exists>e. seq (classroom_setup env) ?g w = (?w1, Inl e)"
    with k show ?thesis unfolding r by (auto simp: returned_def)
  next
    assume "\<exists>x. seq (classroom_setup env) ?g w = ?g x ?w1"
    then obtain tmpdir where s: "seq (classroom_setup env) ?g w = ?g tmpdir ?w1"
      by blast
    from after_setup_environ[of env "tmpdir_name env tmpdir" tmpdir ?w1] k
    show ?thesis unfolding r s by simp
  qed
qed

text \<open>
  C3. The cell \<^bold>\<open>Environment Setup\<close> assigns exactly five variables of \<^verbatim>\<open>os.environ\<close>:
  \<^verbatim>\<open>MASTER_ADDR\<close> "localhost", \<^verbatim>\<open>MASTER_PORT\<close> "9994", \<^verbatim>\<open>RANK\<close> "0", \<^verbatim>\<open>LOCAL_RANK\<close> "0" and
  \<^verbatim>\<open>WORLD_SIZE\<close> "1". Whatever the run of the notebook, its process environment at the
  end is the one it started with, or that one with the five assignments and nothing
  else; after a complete run it is the latter: world size 1, both ranks 0.
\<close>

theorem single_node_topology:
  "environment_setup w =
     (w\<lparr>environ := (environ w)
          (''MASTER_ADDR'' \<mapsto> ''localhost'', ''MASTER_PORT'' \<mapsto> ''9994'',
           ''RANK'' \<mapsto> ''0'', ''LOCAL_RANK'' \<mapsto> ''0'', ''WORLD_SIZE'' \<mapsto> ''1'')\<rparr>,
      Inr ()) \<and>
   (environ (fst (notebook env w)) = environ w \<or>
    environ (fst (notebook env w)) =
      (environ w)
        (''MASTER_ADDR'' \<mapsto> ''localhost'', ''MASTER_PORT'' \<mapsto> ''9994'',
         ''RANK'' \<mapsto> ''0'', ''LOCAL_RANK'' \<mapsto> ''0'', ''WORLD_SIZE'' \<mapsto> ''1'')) \<and>
   (snd (notebook env w) = Inr () \<longrightarrow>
      environ (fst (notebook env w)) =
        (environ w)
          (''MASTER_ADDR'' \<mapsto> ''localhost'', ''MASTER_PORT'' \<mapsto> ''9994'',
           ''RANK'' \<mapsto> ''0'', ''LOCAL_RANK'' \<mapsto> ''0'', ''WORLD_SIZE'' \<mapsto> ''1'') \<and>
      environ (fst (notebook env w)) ''WORLD_SIZE'' = Some ''1'' \<and>
      environ (fst (notebook env w)) ''RANK'' = Some ''0'' \<and>
      environ (fst (notebook env w)) ''LOCAL_RANK'' = Some ''0'')"
proof (cases "py_in ''gpu'' (spark_version env)")
  case False
  then have "notebook env w = (w, Inl (AssertionError gpu_message))"
    by (rule notebook_no_gpu)
  then show ?thesis by (simp add: environment_setup_eq)
next
  case True
  then have n: "notebook env w = remaining_cells env w"
    by (rule notebook_gpu)
  from remaining_cells_environ[of env w] show ?thesis
    unfolding n by (auto simp: environment_setup_eq returned_def)
qed

theorem single_node_topology_witness:
  "snd (notebook demo_env demo_world) = Inr () \<and>
   environ (fst (notebook demo_env demo_world)) =
     [''MASTER_ADDR'' \<mapsto> ''localhost'', ''MASTER_PORT'' \<mapsto> ''9994'',
      ''RANK'' \<mapsto> ''0'', ''LOCAL_RANK'' \<mapsto> ''0'', ''WORLD_SIZE'' \<mapsto> ''1''] \<and>
   environ (fst (notebook demo_env demo_world)) ''WORLD_SIZE'' = Some ''1'' \<and>
   environ (fst (notebook demo_env demo_world)) ''RANK'' = Some ''0'' \<and>
   environ (fst (notebook demo_env demo_world)) ''LOCAL_RANK'' = Some ''0''"
proof -
  have r: "snd (notebook demo_env demo_world) = Inr ()"
    using demo_gpu demo_lib_returns by (rule notebook_completes)
  have e: "environ demo_world = Map.empty"
    by (simp add: demo_world_def)
  from single_node_topology[of demo_world demo_env] r show ?thesis
    unfolding e by blast
qed



section \<open>Complete runs\<close>

lemma classroom_setup_success:
  assumes "classroom_setup env w = (w', Inr tmpdir)"
  shows "\<exists>u1 u2 u3 u4 u5 u6 u7.
    environ w' = environ w \<and>
    trace w' = trace w @
      [(Magic ''%sh'' sh_lines, Inr u1),
       (Magic ''%pip'' [''install'', ''deepspeed==0.9.1'', ''py-cpuinfo==9.0.0''], Inr u2),
       (Magic ''%run'' [''../Includes/Classroom-Setup''], Inr u3),
       (Print (''Username:          '' @ da_username env), Inr u4),
       (Print (''Working Directory: '' @ da_working_dir env), Inr u5),
       (Magic ''%load_ext'' [''autoreload''], Inr u6),
       (Magic ''%autoreload'' [''2''], Inr u7),
       (TemporaryDirectory, Inr tmpdir)]"
  using assms unfolding classroom_setup_def
  apply (elim seq_call_InrE call_InrE)
  apply simp
  done

lemma fine_tuning_success:
  assumes "fine_tuning env lroot w = (w', Inr imdb_ds)"
  shows "\<exists>tokenizer tokenized_dataset training_args model data_collator train_split test_split
      trainer u1 u2 u3 u4 u5 u6 fine_tuned_model inputs input_ids attention_mask pred decoded
      pdf u7.
    environ w' = environ w \<and>
    trace w' = trace w @
      [(LoadDataset ''imdb'', Inr imdb_ds),
       (AutoTokenizer_from_pretrained ''t5-small'' (Some (da_datasets env)), Inr tokenizer),
       (DatasetMap imdb_ds (to_tokens tokenizer imdb_label_lookup) True [''text'', ''label''],
          Inr tokenized_dataset),
       (TrainingArguments
          \<lparr>output_dir = os_path_join lroot ''test-trainer'',
           num_train_epochs = 1,
           per_device_train_batch_size = 16,
           optim = Some ''adamw_torch'',
           deepspeed = None,
           report_to = [''tensorboard'']\<rparr>, Inr training_args),
       (AutoModelForSeq2SeqLM_from_pretrained ''t5-small'' (Some (da_datasets env)), Inr model),
       (DataCollatorWithPadding tokenizer, Inr data_collator),
       (GetItem tokenized_dataset ''train'', Inr train_split),
       (GetItem tokenized_dataset ''test'', Inr test_split),
       (Trainer
          \<lparr>tr_model = model,
           tr_args = training_args,
           train_dataset = train_split,
           eval_dataset = test_split,
           tr_tokenizer = tokenizer,
           data_collator = data_collator\<rparr>, Inr trainer),
       (Magic ''%load_ext'' [''tensorboard''], Inr u1),
       (Magic ''%tensorboard'' [''--logdir'', os_path_join lroot ''test-trainer'' @ ''/runs''],
          Inr u2),
       (Train trainer, Inr u3),
       (SaveModel trainer None, Inr u4),
       (SaveState trainer, Inr u5),
       (SaveModel trainer (Some (da_working_dir env @ ''/llm04_fine_tuning/'' @ ''test-trainer'')),
          Inr u6),
       (AutoModelForSeq2SeqLM_from_pretrained
          (da_working_dir env @ ''/llm04_fine_tuning/'' @ ''test-trainer'') None,
          Inr fine_tuned_model),
       (TokenizerCall tokenizer
          \<lparr>tok_text = reviews,
           text_target = None,
           return_tensors = ''pt'',
           truncation = True,
           padding = True\<rparr>, Inr inputs),
       (GetItem inputs ''input_ids'', Inr input_ids),
       (GetItem inputs ''attention_mask'', Inr attention_mask),
       (Generate fine_tuned_model input_ids attention_mask, Inr pred),
       (BatchDecode tokenizer pred True, Inr decoded),
       (DataFrame (zip reviews (items env decoded)) [''review'', ''classification''], Inr pdf),
       (Display pdf, Inr u7)]"
  using assms unfolding fine_tuning_def Let_def
  apply (elim seq_call_InrE ret_InrE)
  apply simp
  done

lemma deepspeed_run_success:
  assumes "deepspeed_run env lroot imdb_ds w = (w', Inr u)"
  shows "\<exists>tokenizer tokenized_dataset model training_args data_collator train_split test_split
      trainer u1 u2 u3 u4 u5 u6 fine_tuned_model inputs input_ids attention_mask pred decoded
      pdf u7.
    environ w' = environ w \<and>
    trace w' = trace w @
      [(AutoTokenizer_from_pretrained ''t5-base'' (Some (da_datasets env)), Inr tokenizer),
       (DatasetMap imdb_ds (to_tokens tokenizer imdb_label_lookup) True [''text'', ''label''],
          Inr tokenized_dataset),
       (AutoModelForSeq2SeqLM_from_pretrained ''t5-base'' (Some (da_datasets env)), Inr model),
       (TrainingArguments
          \<lparr>output_dir = os_path_join lroot ''test-trainer-deepspeed'',
           num_train_epochs = 3,
           per_device_train_batch_size = 8,
           optim = None,
           deepspeed = Some zero_config,
           report_to = [''tensorboard'']\<rparr>, Inr training_args),
       (DataCollatorWithPadding tokenizer, Inr data_collator),
       (GetItem tokenized_dataset ''train'', Inr train_split),
       (GetItem tokenized_dataset ''test'', Inr test_split),
       (Trainer
          \<lparr>tr_model = model,
           tr_args = training_args,
           train_dataset = train_split,
           eval_dataset = test_split,
           tr_tokenizer = tokenizer,
           data_collator = data_collator\<rparr>, Inr trainer),
       (Magic ''%load_ext'' [''tensorboard''], Inr u1),
       (Magic ''%tensorboard''
          [''--logdir'', os_path_join lroot ''test-trainer-deepspeed'' @ ''/runs''], Inr u2),
       (Train trainer, Inr u3),
       (SaveModel trainer None, Inr u4),
       (SaveState trainer, Inr u5),
       (SaveModel trainer
          (Some (da_working_dir env @ ''/llm04_fine_tuning/'' @ ''test-trainer-deepspeed'')),
          Inr u6),
       (AutoModelForSeq2SeqLM_from_pretrained
          (da_working_dir env @ ''/llm04_fine_tuning/'' @ ''test-trainer-deepspeed'') None,
          Inr fine_tuned_model),
       (TokenizerCall tokenizer
          \<lparr>tok_text = review,
           text_target = None,
           return_tensors = ''pt'',
           truncation = True,
           padding = True\<rparr>, Inr inputs),
       (GetItem inputs ''input_ids'', Inr input_ids),
       (GetItem inputs ''attention_mask'', Inr attention_mask),
       (Generate fine_tuned_model input_ids attention_mask, Inr pred),
       (BatchDecode tokenizer pred True, Inr decoded),
       (DataFrame (zip review (items env decoded)) [''review'', ''classification''], Inr pdf),
       (Display pdf, Inr u7)]"
  using assms unfolding deepspeed_run_def Let_def
  apply (elim seq_call_InrE ret_InrE)
  apply simp
  done

lemma notebook_success:
  assumes "notebook env w = (w', Inr u)"
  shows "\<exists>tmpdir imdb_ds w1 w2 w3 r.
    classroom_setup env w = (w1, Inr tmpdir) \<and>
    fine_tuning env (tmpdir_name env tmpdir) w1 = (w2, Inr imdb_ds) \<and>
    deepspeed_section env (tmpdir_name env tmpdir) imdb_ds w2 = (w3, Inr ()) \<and>
    trace w' = trace w3 @ [(Cleanup tmpdir, Inr r)]"
proof -
  have g: "py_in ''gpu'' (spark_version env)"
  proof (rule ccontr)
    assume "\<not> py_in ''gpu'' (spark_version env)"
    from notebook_no_gpu[OF this, of w] assms show False by simp
  qed
  from assms have "remaining_cells env w = (w', Inr u)"
    by (simp add: notebook_gpu[OF g])
  then show ?thesis
    unfolding remaining_cells_def Let_def clean_up_classroom_def
    by (elim seq_InrE seq_call_InrE ret_InrE) auto
qed

lemma deepspeed_section_success:
  assumes "deepspeed_section env lroot imdb_ds w = (w', Inr u)"
  shows "\<exists>w0. trace w0 = trace w \<and> deepspeed_run env lroot imdb_ds w0 = (w', Inr u)"
proof -
  let ?w0 = "w\<lparr>environ := (environ w)
          (''MASTER_ADDR'' \<mapsto> ''localhost'', ''MASTER_PORT'' \<mapsto> ''9994'',
           ''RANK'' \<mapsto> ''0'', ''LOCAL_RANK'' \<mapsto> ''0'', ''WORLD_SIZE'' \<mapsto> ''1'')\<rparr>"
  from assms have "deepspeed_run env lroot imdb_ds ?w0 = (w', Inr u)"
    by (simp add: deepspeed_section_def environment_setup_eq seq_def)
  then show ?thesis
    by (intro exI[of _ ?w0]) simp
qed



section \<open>The configuration dictionary\<close>

lemma demo_run: "notebook demo_env demo_world = (fst (notebook demo_env demo_world), Inr ())"
  using notebook_completes[OF demo_gpu demo_lib_returns, of demo_world]
  by (simp add: prod_eq_iff)

text \<open>
  C4. The dictionary \<^verbatim>\<open>zero_config\<close> selects ZeRO stage 2, offload of the optimizer to
  device "cpu" with pinned memory, allgather and reduce bucket sizes 5e8 both, and the
  optimizer AdamW with \<^verbatim>\<open>lr\<close>, \<^verbatim>\<open>betas\<close>, \<^verbatim>\<open>eps\<close> and \<^verbatim>\<open>weight_decay\<close> "auto", as is the
  top-level \<^verbatim>\<open>train_batch_size\<close>. In a complete run of the notebook it is the
  \<^verbatim>\<open>deepspeed\<close> argument of a \<^verbatim>\<open>TrainingArguments\<close> whose result is the \<^verbatim>\<open>args\<close> of a
  trainer that is trained.
\<close>

theorem zero_config_selects:
  "cfg_path zero_config [''zero_optimization'', ''stage''] = Some (CInt 2) \<and>
   cfg_path zero_config [''zero_optimization'', ''offload_optimizer'', ''device''] =
     Some (CStr ''cpu'') \<and>
   cfg_path zero_config [''zero_optimization'', ''offload_optimizer'', ''pin_memory''] =
     Some (CBool True) \<and>
   cfg_path zero_config [''zero_optimization'', ''allgather_bucket_size''] =
     Some (CFloat (5 * 10 ^ 8)) \<and>
   cfg_path zero_config [''zero_optimization'', ''reduce_bucket_size''] =
     Some (CFloat (5 * 10 ^ 8)) \<and>
   cfg_path zero_config [''optimizer'', ''type''] = Some (CStr ''AdamW'') \<and>
   cfg_path zero_config [''optimizer'', ''params'', ''lr''] = Some (CStr ''auto'') \<and>
   cfg_path zero_config [''optimizer'', ''params'', ''betas''] = Some (CStr ''auto'') \<and>
   cfg_path zero_config [''optimizer'', ''params'', ''eps''] = Some (CStr ''auto'') \<and>
   cfg_path zero_config [''optimizer'', ''params'', ''weight_decay''] = Some (CStr ''auto'') \<and>
   cfg_path zero_config [''train_batch_size''] = Some (CStr ''auto'') \<and>
   (notebook env w = (w', Inr ()) \<longrightarrow>
      (\<exists>args training_args targs trainer r.
         (TrainingArguments args, Inr training_args) \<in> set (trace w') \<and>
         deepspeed args = Some zero_config \<and>
         (Trainer targs, Inr trainer) \<in> set (trace w') \<and>
         tr_args targs = training_args \<and>
         (Train trainer, Inr r) \<in> set (trace w')))"
proof (intro conjI impI)
  assume "notebook env w = (w', Inr ())"
  from notebook_success[OF this] obtain tmpdir imdb_ds w2 w3 r where
    ds: "deepspeed_section env (tmpdir_name env tmpdir) imdb_ds w2 = (w3, Inr ())"
    and c: "trace w' = trace w3 @ [(Cleanup tmpdir, Inr r)]"
    by blast
  from deepspeed_section_success[OF ds] obtain w0 where
    "deepspeed_run env (tmpdir_name env tmpdir) imdb_ds w0 = (w3, Inr ())"
    by blast
  from deepspeed_run_success[OF this]
  have "\<exists>args training_args targs trainer r.
         (TrainingArguments args, Inr training_args) \<in> set (trace w3) \<and>
         deepspeed args = Some zero_config \<and>
         (Trainer targs, Inr trainer) \<in> set (trace w3) \<and>
         tr_args targs = training_args \<and>
         (Train trainer, Inr r) \<in> set (trace w3)"
    by (elim exE conjE) (simp, force)
  then show "\<exists>args training_args targs trainer r.
         (TrainingArguments args, Inr training_args) \<in> set (trace w') \<and>
         deepspeed args = Some zero_config \<and>
         (Trainer targs, Inr trainer) \<in> set (trace w') \<and>
         tr_args targs = training_args \<and>
         (Train trainer, Inr r) \<in> set (trace w')"
    unfolding c by auto
qed (simp_all add: zero_config_def)

theorem zero_config_selects_witness:
  "notebook demo_env demo_world = (fst (notebook demo_env demo_world), Inr ()) \<and>
   (\<exists>args training_args targs trainer r.
      (TrainingArguments args, Inr training_args) \<in> set (trace (fst (notebook demo_env demo_world))) \<and>
      deepspeed args = Some zero_config \<and>
      (Trainer targs, Inr trainer) \<in> set (trace (fst (notebook demo_env demo_world))) \<and>
      tr_args targs = training_args \<and>
      (Train trainer, Inr r) \<in> set (trace (fst (notebook demo_env demo_world))))"
  using zero_config_selects[of demo_env demo_world "fst (notebook demo_env demo_world)"] demo_run
  by blast



section \<open>Checkpoints, persisted models and cleanup\<close>

lemma os_path_join_prefix: "\<not> prefix ''/'' b \<Longrightarrow> prefix a (os_path_join a b)"
  by (simp add: os_path_join_def)

lemma not_under:
  assumes "\<not> prefix a b" and "\<not> prefix b a"
  shows "\<not> prefix a (b @ c)"
proof
  assume "prefix a (b @ c)"
  moreover have "prefix b (b @ c)" by simp
  ultimately have "prefix a b \<or> prefix b a"
    by (metis prefix_same_cases)
  with assms show False by blast
qed

lemma checkpoints_then_persists_mono:
  assumes "checkpoints_then_persists env new lroot name"
  shows "checkpoints_then_persists env (pre @ new @ post) lroot name"
proof -
  from assms obtain args training_args targs trainer i j r1 r2 where h:
    "(TrainingArguments args, Inr training_args) \<in> set new"
    "output_dir args = os_path_join lroot name"
    "(Trainer targs, Inr trainer) \<in> set new"
    "tr_args targs = training_args"
    "i < j" "j < length new"
    "new ! i = (Train trainer, Inr r1)"
    "new ! j = (SaveModel trainer
                  (Some (da_working_dir env @ ''/llm04_fine_tuning/'' @ name)), Inr r2)"
    unfolding checkpoints_then_persists_def by blast
  show ?thesis
    unfolding checkpoints_then_persists_def
  proof (rule exI[of _ args], rule exI[of _ training_args], rule exI[of _ targs],
      rule exI[of _ trainer], rule exI[of _ "length pre + i"], rule exI[of _ "length pre + j"],
      rule exI[of _ r1], rule exI[of _ r2], intro conjI)
    show "(pre @ new @ post) ! (length pre + i) = (Train trainer, Inr r1)"
      using h(5,6,7) by (simp add: nth_append)
    show "(pre @ new @ post) ! (length pre + j) =
      (SaveModel trainer (Some (da_working_dir env @ ''/llm04_fine_tuning/'' @ name)), Inr r2)"
      using h(6,8) by (simp add: nth_append)
  qed (use h in auto)
qed

lemma fine_tuning_checkpoints:
  assumes "fine_tuning env lroot w = (w', Inr imdb_ds)"
  shows "\<exists>new. trace w' = trace w @ new \<and>
    checkpoints_then_persists env new lroot ''test-trainer'' \<and>
    (\<forall>p \<in> set new. \<forall>t. fst p \<noteq> Cleanup t \<and> fst p \<noteq> TemporaryDirectory)"
proof -
  let ?args = "\<lparr>output_dir = os_path_join lroot ''test-trainer'',
           num_train_epochs = 1,
           per_device_train_batch_size = 16,
           optim = Some ''adamw_torch'',
           deepspeed = None,
           report_to = [''tensorboard'']\<rparr>"
  from fine_tuning_success[OF assms] obtain new training_args targs trainer u3 u6 where
    n: "trace w' = trace w @ new" and l: "length new = 23"
    and a: "new ! 3 = (TrainingArguments ?args, Inr training_args)"
    and b: "new ! 8 = (Trainer targs, Inr trainer)" "tr_args targs = training_args"
    and c: "new ! 11 = (Train trainer, Inr u3)"
    and d: "new ! 14 = (SaveModel trainer
        (Some (da_working_dir env @ ''/llm04_fine_tuning/'' @ ''test-trainer'')), Inr u6)"
    and e: "\<forall>p \<in> set new. \<forall>t. fst p \<noteq> Cleanup t \<and> fst p \<noteq> TemporaryDirectory"
    by (elim exE conjE) (rule that, assumption, simp_all)
  have "(TrainingArguments ?args, Inr training_args) \<in> set new"
    using l nth_mem[of 3 new] a by simp
  moreover have "(Trainer targs, Inr trainer) \<in> set new"
    using l nth_mem[of 8 new] b(1) by simp
  ultimately have "checkpoints_then_persists env new lroot ''test-trainer''"
    unfolding checkpoints_then_persists_def
    using b(2) c d l
    by (intro exI[of _ ?args] exI[of _ training_args] exI[of _ targs] exI[of _ trainer]
        exI[of _ "11::nat"] exI[of _ "14::nat"] exI[of _ u3] exI[of _ u6]) simp
  with n e show ?thesis by blast
qed

lemma deepspeed_run_checkpoints:
  assumes "deepspeed_run env lroot imdb_ds w = (w', Inr u)"
  shows "\<exists>new. trace w' = trace w @ new \<and>
    checkpoints_then_persists env new lroot ''test-trainer-deepspeed'' \<and>
    (\<forall>p \<in> set new. \<forall>t. fst p \<noteq> Cleanup t \<and> fst p \<noteq> TemporaryDirectory)"
proof -
  let ?args = "\<lparr>output_dir = os_path_join lroot ''test-trainer-deepspeed'',
           num_train_epochs = 3,
           per_device_train_batch_size = 8,
           optim = None,
           deepspeed = Some zero_config,
           report_to = [''tensorboard'']\<rparr>"
  from deepspeed_run_success[OF assms] obtain new training_args targs trainer u3 u6 where
    n: "trace w' = trace w @ new" and l: "length new = 22"
    and a: "new ! 3 = (TrainingArguments ?args, Inr training_args)"
    and b: "new ! 7 = (Trainer targs, Inr trainer)" "tr_args targs = training_args"
    and c: "new ! 10 = (Train trainer, Inr u3)"
    and d: "new ! 13 = (SaveModel trainer
        (Some (da_working_dir env @ ''/llm04_fine_tuning/'' @ ''test-trainer-deepspeed'')),
        Inr u6)"
    and e: "\<forall>p \<in> set new. \<forall>t. fst p \<noteq> Cleanup t \<and> fst p \<noteq> TemporaryDirectory"
    by (elim exE conjE) (rule that, assumption, simp_all)
  have "(TrainingArguments ?args, Inr training_args) \<in> set new"
    using l nth_mem[of 3 new] a by simp
  moreover have "(Trainer targs, Inr trainer) \<in> set new"
    using l nth_mem[of 7 new] b(1) by simp
  ultimately have "checkpoints_then_persists env new lroot ''test-trainer-deepspeed''"
    unfolding checkpoints_then_persists_def
    using b(2) c d l
    by (intro exI[of _ ?args] exI[of _ training_args] exI[of _ targs] exI[of _ trainer]
        exI[of _ "10::nat"] exI[of _ "13::nat"] exI[of _ u3] exI[of _ u6]) simp
  with n e show ?thesis by blast
qed

text \<open>
  C5. In a complete run of the notebook a temporary directory is created; each of the two
  training runs takes as output directory \<^verbatim>\<open>os.path.join\<close> of that directory's name and
  its checkpoint name, a path that starts with the directory's name, trains, and
  afterwards saves the model to
  \<^verbatim>\<open>{DA.paths.working_dir}/llm04_fine_tuning/{checkpoint_name}\<close>, a path under the working
  directory. The last call of the run is the cleanup of that temporary directory, and
  no other call is a cleanup. When neither of the working directory and the temporary
  directory is inside the other, the two persistent paths are outside the temporary
  directory, which is all the cleanup removes.
\<close>

theorem checkpoints_and_cleanup:
  assumes "notebook env w = (w', Inr ())"
  shows "\<exists>tmpdir new r.
     trace w' = trace w @ new \<and>
     (TemporaryDirectory, Inr tmpdir) \<in> set new \<and>
     checkpoints_then_persists env new (tmpdir_name env tmpdir) ''test-trainer'' \<and>
     checkpoints_then_persists env new (tmpdir_name env tmpdir) ''test-trainer-deepspeed'' \<and>
     prefix (tmpdir_name env tmpdir) (os_path_join (tmpdir_name env tmpdir) ''test-trainer'') \<and>
     prefix (tmpdir_name env tmpdir)
       (os_path_join (tmpdir_name env tmpdir) ''test-trainer-deepspeed'') \<and>
     prefix (da_working_dir env) (da_working_dir env @ ''/llm04_fine_tuning/'' @ ''test-trainer'') \<and>
     prefix (da_working_dir env)
       (da_working_dir env @ ''/llm04_fine_tuning/'' @ ''test-trainer-deepspeed'') \<and>
     last new = (Cleanup tmpdir, Inr r) \<and>
     (\<forall>p \<in> set (butlast new). \<forall>t. fst p \<noteq> Cleanup t) \<and>
     (\<not> prefix (tmpdir_name env tmpdir) (da_working_dir env) \<and>
      \<not> prefix (da_working_dir env) (tmpdir_name env tmpdir) \<longrightarrow>
        \<not> prefix (tmpdir_name env tmpdir)
            (da_working_dir env @ ''/llm04_fine_tuning/'' @ ''test-trainer'') \<and>
        \<not> prefix (tmpdir_name env tmpdir)
            (da_working_dir env @ ''/llm04_fine_tuning/'' @ ''test-trainer-deepspeed''))"
proof -
  from notebook_success[OF assms] obtain tmpdir imdb_ds w1 w2 w3 r where
    s: "classroom_setup env w = (w1, Inr tmpdir)"
    and f: "fine_tuning env (tmpdir_name env tmpdir) w1 = (w2, Inr imdb_ds)"
    and d: "deepspeed_section env (tmpdir_name env tmpdir) imdb_ds w2 = (w3, Inr ())"
    and c: "trace w' = trace w3 @ [(Cleanup tmpdir, Inr r)]"
    by blast
  let ?lroot = "tmpdir_name env tmpdir"
  from classroom_setup_success[OF s] obtain S where
    S: "trace w1 = trace w @ S" "(TemporaryDirectory, Inr tmpdir) \<in> set S"
    "\<forall>p \<in> set S. \<forall>t. fst p \<noteq> Cleanup t"
    by (elim exE conjE) (rule that, assumption, simp_all)
  from fine_tuning_checkpoints[OF f] obtain F where
    F: "trace w2 = trace w1 @ F" "checkpoints_then_persists env F ?lroot ''test-trainer''"
    "\<forall>p \<in> set F. \<forall>t. fst p \<noteq> Cleanup t"
    by blast
  from deepspeed_section_success[OF d] obtain w0 where
    w0: "trace w0 = trace w2" "deepspeed_run env ?lroot imdb_ds w0 = (w3, Inr ())"
    by blast
  from deepspeed_run_checkpoints[OF w0(2)] obtain D where
    D: "trace w3 = trace w0 @ D"
    "checkpoints_then_persists env D ?lroot ''test-trainer-deepspeed''"
    "\<forall>p \<in> set D. \<forall>t. fst p \<noteq> Cleanup t"
    by blast
  let ?new = "S @ F @ D @ [(Cleanup tmpdir, Inr r)]"
  have t: "trace w' = trace w @ ?new"
    using c D(1) w0(1) F(1) S(1) by simp
  have c1: "checkpoints_then_persists env ?new ?lroot ''test-trainer''"
    using checkpoints_then_persists_mono[OF F(2), of S "D @ [(Cleanup tmpdir, Inr r)]"]
    by simp
  have c2: "checkpoints_then_persists env ?new ?lroot ''test-trainer-deepspeed''"
    using checkpoints_then_persists_mono[OF D(2), of "S @ F" "[(Cleanup tmpdir, Inr r)]"]
    by simp
  have b: "butlast ?new = S @ F @ D"
    by (simp add: butlast_append)
  have nc: "\<forall>p \<in> set (butlast ?new). \<forall>t. fst p \<noteq> Cleanup t"
    unfolding b using S(3) F(3) D(3) by auto
  have p: "\<not> prefix ?lroot (da_working_dir env) \<and> \<not> prefix (da_working_dir env) ?lroot \<longrightarrow>
        \<not> prefix ?lroot (da_working_dir env @ ''/llm04_fine_tuning/'' @ ''test-trainer'') \<and>
        \<not> prefix ?lroot (da_working_dir env @ ''/llm04_fine_tuning/'' @ ''test-trainer-deepspeed'')"
    using not_under by blast
  show ?thesis
    apply (rule exI[of _ tmpdir], rule exI[of _ ?new], rule exI[of _ r])
    apply (intro conjI)
              apply (rule t)
    using S(2) apply simp
            apply (rule c1)
           apply (rule c2)
          apply (rule os_path_join_prefix, simp)
         apply (rule os_path_join_prefix, simp)
        apply simp
       apply simp
      apply simp
     apply (rule nc)
    apply (rule p)
    done
qed

theorem checkpoints_and_cleanup_witness:
  "notebook demo_env demo_world = (fst (notebook demo_env demo_world), Inr ()) \<and>
   \<not> prefix ''/tmp/tmpk3v9x2ab'' (da_working_dir demo_env) \<and>
   \<not> prefix (da_working_dir demo_env) ''/tmp/tmpk3v9x2ab'' \<and>
   (\<exists>tmpdir new r.
      trace (fst (notebook demo_env demo_world)) = trace demo_world @ new \<and>
      (TemporaryDirectory, Inr tmpdir) \<in> set new \<and>
      checkpoints_then_persists demo_env new ''/tmp/tmpk3v9x2ab'' ''test-trainer'' \<and>
      checkpoints_then_persists demo_env new ''/tmp/tmpk3v9x2ab'' ''test-trainer-deepspeed'' \<and>
      last new = (Cleanup tmpdir, Inr r) \<and>
      \<not> prefix ''/tmp/tmpk3v9x2ab''
          (da_working_dir demo_env @ ''/llm04_fine_tuning/'' @ ''test-trainer'') \<and>
      \<not> prefix ''/tmp/tmpk3v9x2ab''
          (da_working_dir demo_env @ ''/llm04_fine_tuning/'' @ ''test-trainer-deepspeed''))"
proof -
  have n: "tmpdir_name demo_env = (\<lambda>_. ''/tmp/tmpk3v9x2ab'')"
    by (simp add: demo_env_def)
  have a: "\<not> prefix ''/tmp/tmpk3v9x2ab'' (da_working_dir demo_env)"
    "\<not> prefix (da_working_dir demo_env) ''/tmp/tmpk3v9x2ab''"
    by (simp_all add: demo_env_def)
  from checkpoints_and_cleanup[OF demo_run] a demo_run show ?thesis
    unfolding n by blast
qed



section \<open>Prediction\<close>

lemma zip_all: "length ys = length xs \<Longrightarrow> map fst (zip xs ys) = xs \<and> map snd (zip xs ys) = ys"
  by simp

text \<open>
  C7. A complete training run ends as follows: the trainer that was trained saves the
  model to the persistent path, the model is loaded back from that path, the tokenizer
  is called on the reviews, \<^verbatim>\<open>generate\<close> is called on the reloaded model with the
  \<^verbatim>\<open>input_ids\<close> and the \<^verbatim>\<open>attention_mask\<close> of the tokenized reviews, its result is
  decoded by \<^verbatim>\<open>batch_decode\<close> with \<^verbatim>\<open>skip_special_tokens=True\<close>, and a data frame with
  the columns "review" and "classification", whose rows pair the reviews with the
  decoded strings, is displayed. When the decoder yields one string per review, every
  review is in a row with its decoded string. This holds of both runs.
\<close>

theorem classification_by_generation:
  "(fine_tuning env lroot w = (w', Inr imdb_ds) \<longrightarrow>
      (\<exists>pre tokenizer trainer u3 u6 fine_tuned_model inputs input_ids attention_mask pred
          decoded pdf u7.
         trace w' = trace w @ pre @
           [(SaveModel trainer
               (Some (da_working_dir env @ ''/llm04_fine_tuning/'' @ ''test-trainer'')), Inr u6),
            (AutoModelForSeq2SeqLM_from_pretrained
               (da_working_dir env @ ''/llm04_fine_tuning/'' @ ''test-trainer'') None,
               Inr fine_tuned_model),
            (TokenizerCall tokenizer
               \<lparr>tok_text = reviews,
                text_target = None,
                return_tensors = ''pt'',
                truncation = True,
                padding = True\<rparr>, Inr inputs),
            (GetItem inputs ''input_ids'', Inr input_ids),
            (GetItem inputs ''attention_mask'', Inr attention_mask),
            (Generate fine_tuned_model input_ids attention_mask, Inr pred),
            (BatchDecode tokenizer pred True, Inr decoded),
            (DataFrame (zip reviews (items env decoded)) [''review'', ''classification''],
               Inr pdf),
            (Display pdf, Inr u7)] \<and>
         (Train trainer, Inr u3) \<in> set pre \<and>
         (length (items env decoded) = length reviews \<longrightarrow>
            map fst (zip reviews (items env decoded)) = reviews \<and>
            map snd (zip reviews (items env decoded)) = items env decoded))) \<and>
   (deepspeed_run env lroot imdb_ds w = (w', Inr ()) \<longrightarrow>
      (\<exists>pre tokenizer trainer u3 u6 fine_tuned_model inputs input_ids attention_mask pred
          decoded pdf u7.
         trace w' = trace w @ pre @
           [(SaveModel trainer
               (Some (da_working_dir env @ ''/llm04_fine_tuning/'' @ ''test-trainer-deepspeed'')),
               Inr u6),
            (AutoModelForSeq2SeqLM_from_pretrained
               (da_working_dir env @ ''/llm04_fine_tuning/'' @ ''test-trainer-deepspeed'') None,
               Inr fine_tuned_model),
            (TokenizerCall tokenizer
               \<lparr>tok_text = review,
                text_target = None,
                return_tensors = ''pt'',
                truncation = True,
                padding = True\<rparr>, Inr inputs),
            (GetItem inputs ''input_ids'', Inr input_ids),
            (GetItem inputs ''attention_mask'', Inr attention_mask),
            (Generate fine_tuned_model input_ids attention_mask, Inr pred),
            (BatchDecode tokenizer pred True, Inr decoded),
            (DataFrame (zip review (items env decoded)) [''review'', ''classification''],
               Inr pdf),
            (Display pdf, Inr u7)] \<and>
         (Train trainer, Inr u3) \<in> set pre \<and>
         (length (items env decoded) = length review \<longrightarrow>
            map fst (zip review (items env decoded)) = review \<and>
            map snd (zip review (items env decoded)) = items env decoded)))"
proof (intro conjI impI)
  assume "fine_tuning env lroot w = (w', Inr imdb_ds)"
  from fine_tuning_success[OF this] obtain tokenizer tokenized_dataset training_args model
      data_collator train_split test_split trainer u1 u2 u3 u4 u5 u6 fine_tuned_model inputs
      input_ids attention_mask pred decoded pdf u7
    where t: "trace w' = trace w @
      [(LoadDataset ''imdb'', Inr imdb_ds),
       (AutoTokenizer_from_pretrained ''t5-small'' (Some (da_datasets env)), Inr tokenizer),
       (DatasetMap imdb_ds (to_tokens tokenizer imdb_label_lookup) True [''text'', ''label''],
          Inr tokenized_dataset),
       (TrainingArguments
          \<lparr>output_dir = os_path_join lroot ''test-trainer'',
           num_train_epochs = 1,
           per_device_train_batch_size = 16,
           optim = Some ''adamw_torch'',
           deepspeed = None,
           report_to = [''tensorboard'']\<rparr>, Inr training_args),
       (AutoModelForSeq2SeqLM_from_pretrained ''t5-small'' (Some (da_datasets env)), Inr model),
       (DataCollatorWithPadding tokenizer, Inr data_collator),
       (GetItem tokenized_dataset ''train'', Inr train_split),
       (GetItem tokenized_dataset ''test'', Inr test_split),
       (Trainer
          \<lparr>tr_model = model,
           tr_args = training_args,
           train_dataset = train_split,
           eval_dataset = test_split,
           tr_tokenizer = tokenizer,
           data_collator = data_collator\<rparr>, Inr trainer),
       (Magic ''%load_ext'' [''tensorboard''], Inr u1),
       (Magic ''%tensorboard'' [''--logdir'', os_path_join lroot ''test-trainer'' @ ''/runs''],
          Inr u2),
       (Train trainer, Inr u3),
       (SaveModel trainer None, Inr u4),
       (SaveState trainer, Inr u5)] @
      [(SaveModel trainer (Some (da_working_dir env @ ''/llm04_fine_tuning/'' @ ''test-trainer'')),
          Inr u6),
       (AutoModelForSeq2SeqLM_from_pretrained
          (da_working_dir env @ ''/llm04_fine_tuning/'' @ ''test-trainer'') None,
          Inr fine_tuned_model),
       (TokenizerCall tokenizer
          \<lparr>tok_text = reviews,
           text_target = None,
           return_tensors = ''pt'',
           truncation = True,
           padding = True\<rparr>, Inr inputs),
       (GetItem inputs ''input_ids'', Inr input_ids),
       (GetItem inputs ''attention_mask'', Inr attention_mask),
       (Generate fine_tuned_model input_ids attention_mask, Inr pred),
       (BatchDecode tokenizer pred True, Inr decoded),
       (DataFrame (zip reviews (items env decoded)) [''review'', ''classification''], Inr pdf),
       (Display pdf, Inr u7)]"
    by (elim exE conjE) (rule that, simp)
  show "\<exists>pre tokenizer trainer u3 u6 fine_tuned_model inputs input_ids attention_mask pred
          decoded pdf u7.
         trace w' = trace w @ pre @
           [(SaveModel trainer
               (Some (da_working_dir env @ ''/llm04_fine_tuning/'' @ ''test-trainer'')), Inr u6),
            (AutoModelForSeq2SeqLM_from_pretrained
               (da_working_dir env @ ''/llm04_fine_tuning/'' @ ''test-trainer'') None,
               Inr fine_tuned_model),
            (TokenizerCall tokenizer
               \<lparr>tok_text = reviews,
                text_target = None,
                return_tensors = ''pt'',
                truncation = True,
                padding = True\<rparr>, Inr inputs),
            (GetItem inputs ''input_ids'', Inr input_ids),
            (GetItem inputs ''attention_mask'', Inr attention_mask),
            (Generate fine_tuned_model input_ids attention_mask, Inr pred),
            (BatchDecode tokenizer pred True, Inr decoded),
            (DataFrame (zip reviews (items env decoded)) [''review'', ''classification''],
               Inr pdf),
            (Display pdf, Inr u7)] \<and>
         (Train trainer, Inr u3) \<in> set pre \<and>
         (length (items env decoded) = length reviews \<longrightarrow>
            map fst (zip reviews (items env decoded)) = reviews \<and>
            map snd (zip reviews (items env decoded)) = items env decoded)"
    apply (rule exI, rule exI[of _ tokenizer], rule exI[of _ trainer], rule exI[of _ u3],
        rule exI[of _ u6], rule exI[of _ fine_tuned_model], rule exI[of _ inputs],
        rule exI[of _ input_ids], rule exI[of _ attention_mask], rule exI[of _ pred],
        rule exI[of _ decoded], rule exI[of _ pdf], rule exI[of _ u7])
    apply (intro conjI)
      apply (rule t)
     apply simp
    apply (rule impI, erule zip_all)
    done
next
  assume "deepspeed_run env lroot imdb_ds w = (w', Inr ())"
  from deepspeed_run_success[OF this] obtain tokenizer tokenized_dataset model training_args
      data_collator train_split test_split trainer u1 u2 u3 u4 u5 u6 fine_tuned_model inputs
      input_ids attention_mask pred decoded pdf u7
    where t: "trace w' = trace w @
      [(AutoTokenizer_from_pretrained ''t5-base'' (Some (da_datasets env)), Inr tokenizer),
       (DatasetMap imdb_ds (to_tokens tokenizer imdb_label_lookup) True [''text'', ''label''],
          Inr tokenized_dataset),
       (AutoModelForSeq2SeqLM_from_pretrained ''t5-base'' (Some (da_datasets env)), Inr model),
       (TrainingArguments
          \<lparr>output_dir = os_path_join lroot ''test-trainer-deepspeed'',
           num_train_epochs = 3,
           per_device_train_batch_size = 8,
           optim = None,
           deepspeed = Some zero_config,
           report_to = [''tensorboard'']\<rparr>, Inr training_args),
       (DataCollatorWithPadding tokenizer, Inr data_collator),
       (GetItem tokenized_dataset ''train'', Inr train_split),
       (GetItem tokenized_dataset ''test'', Inr test_split),
       (Trainer
          \<lparr>tr_model = model,
           tr_args = training_args,
           train_dataset = train_split,
           eval_dataset = test_split,
           tr_tokenizer = tokenizer,
           data_collator = data_collator\<rparr>, Inr trainer),
       (Magic ''%load_ext'' [''tensorboard''], Inr u1),
       (Magic ''%tensorboard''
          [''--logdir'', os_path_join lroot ''test-trainer-deepspeed'' @ ''/runs''], Inr u2),
       (Train trainer, Inr u3),
       (SaveModel trainer None, Inr u4),
       (SaveState trainer, Inr u5)] @
      [(SaveModel trainer
          (Some (da_working_dir env @ ''/llm04_fine_tuning/'' @ ''test-trainer-deepspeed'')),
          Inr u6),
       (AutoModelForSeq2SeqLM_from_pretrained
          (da_working_dir env @ ''/llm04_fine_tuning/'' @ ''test-trainer-deepspeed'') None,
          Inr fine_tuned_model),
       (TokenizerCall tokenizer
          \<lparr>tok_text = review,
           text_target = None,
           return_tensors = ''pt'',
           truncation = True,
           padding = True\<rparr>, Inr inputs),
       (GetItem inputs ''input_ids'', Inr input_ids),
       (GetItem inputs ''attention_mask'', Inr attention_mask),
       (Generate fine_tuned_model input_ids attention_mask, Inr pred),
       (BatchDecode tokenizer pred True, Inr decoded),
       (DataFrame (zip review (items env decoded)) [''review'', ''classification''], Inr pdf),
       (Display pdf, Inr u7)]"
    by (elim exE conjE) (rule that, simp)
  show "\<exists>pre tokenizer trainer u3 u6 fine_tuned_model inputs input_ids attention_mask pred
          decoded pdf u7.
         trace w' = trace w @ pre @
           [(SaveModel trainer
               (Some (da_working_dir env @ ''/llm04_fine_tuning/'' @ ''test-trainer-deepspeed'')),
               Inr u6),
            (AutoModelForSeq2SeqLM_from_pretrained
               (da_working_dir env @ ''/llm04_fine_tuning/'' @ ''test-trainer-deepspeed'') None,
               Inr fine_tuned_model),
            (TokenizerCall tokenizer
               \<lparr>tok_text = review,
                text_target = None,
                return_tensors = ''pt'',
                truncation = True,
                padding = True\<rparr>, Inr inputs),
            (GetItem inputs ''input_ids'', Inr input_ids),
            (GetItem inputs ''attention_mask'', Inr attention_mask),
            (Generate fine_tuned_model input_ids attention_mask, Inr pred),
            (BatchDecode tokenizer pred True, Inr decoded),
            (DataFrame (zip review (items env decoded)) [''review'', ''classification''],
               Inr pdf),
            (Display pdf, Inr u7)] \<and>
         (Train trainer, Inr u3) \<in> set pre \<and>
         (length (items env decoded) = length review \<longrightarrow>
            map fst (zip review (items env decoded)) = review \<and>
            map snd (zip review (items env decoded)) = items env decoded)"
    apply (rule exI, rule exI[of _ tokenizer], rule exI[of _ trainer], rule exI[of _ u3],
        rule exI[of _ u6], rule exI[of _ fine_tuned_model], rule exI[of _ inputs],
        rule exI[of _ input_ids], rule exI[of _ attention_mask], rule exI[of _ pred],
        rule exI[of _ decoded], rule exI[of _ pdf], rule exI[of _ u7])
    apply (intro conjI)
      apply (rule t)
     apply simp
    apply (rule impI, erule zip_all)
    done
qed

lemma demo_fine_tuning:
  "fine_tuning demo_env ''/tmp/tmpk3v9x2ab'' demo_world =
     (fst (fine_tuning demo_env ''/tmp/tmpk3v9x2ab'' demo_world), Inr 0)"
  by (simp add: fine_tuning_def seq_def call_eq ret_def Let_def demo_env_def demo_world_def)

theorem classification_by_generation_witness:
  "fine_tuning demo_env ''/tmp/tmpk3v9x2ab'' demo_world =
     (fst (fine_tuning demo_env ''/tmp/tmpk3v9x2ab'' demo_world), Inr 0) \<and>
   (\<exists>pre tokenizer model input_ids attention_mask pred decoded pdf u.
      trace (fst (fine_tuning demo_env ''/tmp/tmpk3v9x2ab'' demo_world)) = pre @
        [(Generate model input_ids attention_mask, Inr pred),
         (BatchDecode tokenizer pred True, Inr decoded),
         (DataFrame
            [(review_1, ''negative''), (review_2, ''positive''),
             (review_3, ''negative''), (review_4, ''positive'')]
            [''review'', ''classification''], Inr pdf),
         (Display pdf, Inr u)])"
proof -
  let ?w' = "fst (fine_tuning demo_env ''/tmp/tmpk3v9x2ab'' demo_world)"
  have i: "items demo_env = (\<lambda>_. [''negative'', ''positive'', ''negative'', ''positive''])"
    by (simp add: demo_env_def)
  from classification_by_generation[where env = demo_env and lroot = "''/tmp/tmpk3v9x2ab''"
      and w = demo_world and w' = ?w' and imdb_ds = 0] demo_fine_tuning
  obtain pre tokenizer trainer u6 fine_tuned_model inputs input_ids attention_mask pred
      decoded pdf u7 where
    "trace ?w' = trace demo_world @ pre @
           [(SaveModel trainer
               (Some (da_working_dir demo_env @ ''/llm04_fine_tuning/'' @ ''test-trainer'')),
               Inr u6),
            (AutoModelForSeq2SeqLM_from_pretrained
               (da_working_dir demo_env @ ''/llm04_fine_tuning/'' @ ''test-trainer'') None,
               Inr fine_tuned_model),
            (TokenizerCall tokenizer
               \<lparr>tok_text = reviews,
                text_target = None,
                return_tensors = ''pt'',
                truncation = True,
                padding = True\<rparr>, Inr inputs),
            (GetItem inputs ''input_ids'', Inr input_ids),
            (GetItem inputs ''attention_mask'', Inr attention_mask),
            (Generate fine_tuned_model input_ids attention_mask, Inr pred),
            (BatchDecode tokenizer pred True, Inr decoded),
            (DataFrame (zip reviews (items demo_env decoded)) [''review'', ''classification''],
               Inr pdf),
            (Display pdf, Inr u7)]"
    by blast
  then have "trace ?w' = (pre @
           [(SaveModel trainer
               (Some (da_working_dir demo_env @ ''/llm04_fine_tuning/'' @ ''test-trainer'')),
               Inr u6),
            (AutoModelForSeq2SeqLM_from_pretrained
               (da_working_dir demo_env @ ''/llm04_fine_tuning/'' @ ''test-trainer'') None,
               Inr fine_tuned_model),
            (TokenizerCall tokenizer
               \<lparr>tok_text = reviews,
                text_target = None,
                return_tensors = ''pt'',
                truncation = True,
                padding = True\<rparr>, Inr inputs),
            (GetItem inputs ''input_ids'', Inr input_ids),
            (GetItem inputs ''attention_mask'', Inr attention_mask)]) @
        [(Generate fine_tuned_model input_ids attention_mask, Inr pred),
         (BatchDecode tokenizer pred True, Inr decoded),
         (DataFrame
            [(review_1, ''negative''), (review_2, ''positive''),
             (review_3, ''negative''), (review_4, ''positive'')]
            [''review'', ''classification''], Inr pdf),
         (Display pdf, Inr u7)]"
    by (simp add: i reviews_def demo_world_def)
  then show ?thesis
    using demo_fine_tuning by blast
qed



section \<open>The order of the steps\<close>








subsection \<open>Every outcome of a chain of calls\<close>








subsection \<open>Prediction only on a saved and reloaded model\<close>













subsection \<open>The steps of each run and of the notebook\<close>















section \<open>The columns of the tokenized dataset\<close>

lemma apply_closure_Inr:
  assumes "apply_closure env (to_tokens tokenizer label_map) x v1 = (v2, Inr enc)"
  shows "\<exists>args. lib env v1 (TokenizerCall tokenizer args) = Inr enc"
proof (cases "lookup_labels label_map (label_column x)")
  case (Inl e)
  with assms show ?thesis by (simp add: to_tokens_def raise_def)
next
  case (Inr targets)
  with assms show ?thesis by (auto simp: to_tokens_def call_eq)
qed

lemma nth_in: "k < length xs \<Longrightarrow> xs ! k = y \<Longrightarrow> y \<in> set xs"
  by auto

lemma follows_answers:
  assumes "follows env cls ks m" and "trace (fst (m w)) = trace w @ new"
  shows "\<forall>p \<in> set new. \<exists>v. snd p = lib env v (fst p)"
proof -
  from assms(1) obtain new' where "trace (fst (m w)) = trace w @ new'"
    "\<forall>p \<in> set new'. \<exists>v. snd p = lib env v (fst p)"
    unfolding follows_def by blast
  with assms(2) show ?thesis by simp
qed

lemma trains_on_encodings_mono:
  assumes "trains_on_encodings env columns enc_fields new model_checkpoint"
    and "set new \<subseteq> set new'"
  shows "trains_on_encodings env columns enc_fields new' model_checkpoint"
proof -
  from assms(1) obtain tokenizer imdb_ds tokenized_dataset targs trainer where h:
    "(AutoTokenizer_from_pretrained model_checkpoint (Some (da_datasets env)), Inr tokenizer)
       \<in> set new"
    "(DatasetMap imdb_ds (to_tokens tokenizer imdb_label_lookup) True [''text'', ''label''],
        Inr tokenized_dataset) \<in> set new"
    "(GetItem tokenized_dataset ''train'', Inr (train_dataset targs)) \<in> set new"
    "(GetItem tokenized_dataset ''test'', Inr (eval_dataset targs)) \<in> set new"
    "(Trainer targs, Inr trainer) \<in> set new"
    "\<forall>c \<in> columns tokenized_dataset \<union> columns (train_dataset targs) \<union>
           columns (eval_dataset targs).
       \<exists>args v enc. lib env v (TokenizerCall tokenizer args) = Inr enc \<and> c \<in> enc_fields enc"
    unfolding trains_on_encodings_def by (elim exE conjE)
  from h(1-5) assms(2) have
    "(AutoTokenizer_from_pretrained model_checkpoint (Some (da_datasets env)), Inr tokenizer)
       \<in> set new'"
    "(DatasetMap imdb_ds (to_tokens tokenizer imdb_label_lookup) True [''text'', ''label''],
        Inr tokenized_dataset) \<in> set new'"
    "(GetItem tokenized_dataset ''train'', Inr (train_dataset targs)) \<in> set new'"
    "(GetItem tokenized_dataset ''test'', Inr (eval_dataset targs)) \<in> set new'"
    "(Trainer targs, Inr trainer) \<in> set new'"
    by (simp_all add: subset_iff)
  with h(6) show ?thesis
    unfolding trains_on_encodings_def
    by (intro exI[of _ tokenizer] exI[of _ imdb_ds] exI[of _ tokenized_dataset]
        exI[of _ targs] exI[of _ trainer] conjI)
qed

lemma mapped_columns:
  fixes columns :: "'o \<Rightarrow> string set" and enc_fields :: "'o \<Rightarrow> string set"
  assumes mapped: "\<forall>v ds f rc r. lib env v (DatasetMap ds f True rc) = Inr r \<longrightarrow>
        columns r \<subseteq> (columns ds - set rc) \<union>
          (\<Union>enc \<in> {enc. \<exists>x v1 v2. apply_closure env f x v1 = (v2, Inr enc)}. enc_fields enc)"
    and split: "\<forall>v ds k s. lib env v (GetItem ds k) = Inr s \<longrightarrow> columns s \<subseteq> columns ds"
    and raw: "columns imdb_ds \<subseteq> {''text'', ''label''}"
    and m: "lib env v (DatasetMap imdb_ds (to_tokens tokenizer imdb_label_lookup) True
              [''text'', ''label'']) = Inr tokenized_dataset"
    and a: "lib env va (GetItem tokenized_dataset ''train'') = Inr train_split"
    and b: "lib env vb (GetItem tokenized_dataset ''test'') = Inr test_split"
  shows "\<forall>c \<in> columns tokenized_dataset \<union> columns train_split \<union> columns test_split.
           \<exists>args v enc. lib env v (TokenizerCall tokenizer args) = Inr enc \<and> c \<in> enc_fields enc"
proof
  fix c
  assume c: "c \<in> columns tokenized_dataset \<union> columns train_split \<union> columns test_split"
  define U where "U = (\<Union>enc \<in> {enc. \<exists>x v1 v2.
      apply_closure env (to_tokens tokenizer imdb_label_lookup) x v1 = (v2, Inr enc)}.
      enc_fields enc)"
  define R where "R = set [''text'', ''label'']"
  have R: "R = {''text'', ''label''}"
    unfolding R_def by (simp only: list.set)
  have 1: "columns tokenized_dataset \<subseteq> (columns imdb_ds - R) \<union> U"
    unfolding U_def R_def by (rule mapped[rule_format, OF m])
  have 2: "columns imdb_ds \<subseteq> R"
    unfolding R by (rule raw)
  have 3: "columns train_split \<subseteq> columns tokenized_dataset"
    "columns test_split \<subseteq> columns tokenized_dataset"
    by (rule split[rule_format, OF a], rule split[rule_format, OF b])
  from c 1 2 3 have "c \<in> U"
    by blast
  then obtain enc x v1 v2 where
    h: "apply_closure env (to_tokens tokenizer imdb_label_lookup) x v1 = (v2, Inr enc)"
    "c \<in> enc_fields enc"
    unfolding U_def by blast
  from apply_closure_Inr[OF h(1)] obtain args where
    "lib env v1 (TokenizerCall tokenizer args) = Inr enc"
    by blast
  with h(2)
  show "\<exists>args v enc. lib env v (TokenizerCall tokenizer args) = Inr enc \<and> c \<in> enc_fields enc"
    by blast
qed

lemma fine_tuning_tokenized:
  fixes columns :: "'o \<Rightarrow> string set" and enc_fields :: "'o \<Rightarrow> string set"
  assumes raw: "\<forall>v ds. lib env v (LoadDataset ''imdb'') = Inr ds \<longrightarrow>
        columns ds \<subseteq> {''text'', ''label''}"
    and mapped: "\<forall>v ds f rc r. lib env v (DatasetMap ds f True rc) = Inr r \<longrightarrow>
        columns r \<subseteq> (columns ds - set rc) \<union>
          (\<Union>enc \<in> {enc. \<exists>x v1 v2. apply_closure env f x v1 = (v2, Inr enc)}. enc_fields enc)"
    and split: "\<forall>v ds k s. lib env v (GetItem ds k) = Inr s \<longrightarrow> columns s \<subseteq> columns ds"
    and run: "fine_tuning env lroot w = (w', Inr imdb_ds)"
  shows "\<exists>new. trace w' = trace w @ new \<and>
    columns imdb_ds \<subseteq> {''text'', ''label''} \<and>
    trains_on_encodings env columns enc_fields new ''t5-small'' \<and>
    (\<forall>ds f b rc r. (DatasetMap ds f b rc, r) \<in> set new \<longrightarrow> b \<and> rc = [''text'', ''label''])"
proof -
  from fine_tuning_success[OF run] obtain new tokenizer tokenized_dataset targs trainer
      train_split test_split where
    n: "trace w' = trace w @ new" and l: "length new = 23"
    and i: "new ! 0 = (LoadDataset ''imdb'', Inr imdb_ds)"
      "new ! 1 =
         (AutoTokenizer_from_pretrained ''t5-small'' (Some (da_datasets env)), Inr tokenizer)"
      "new ! 2 =
         (DatasetMap imdb_ds (to_tokens tokenizer imdb_label_lookup) True [''text'', ''label''],
          Inr tokenized_dataset)"
      "new ! 6 = (GetItem tokenized_dataset ''train'', Inr train_split)"
      "new ! 7 = (GetItem tokenized_dataset ''test'', Inr test_split)"
      "new ! 8 = (Trainer targs, Inr trainer)"
    and d: "train_dataset targs = train_split" "eval_dataset targs = test_split"
    and o: "\<forall>ds f b rc r. (DatasetMap ds f b rc, r) \<in> set new \<longrightarrow> b \<and> rc = [''text'', ''label'']"
    by (elim exE conjE) (rule that, assumption, simp_all)
  have e: "(LoadDataset ''imdb'', Inr imdb_ds) \<in> set new"
      "(AutoTokenizer_from_pretrained ''t5-small'' (Some (da_datasets env)), Inr tokenizer)
         \<in> set new"
      "(DatasetMap imdb_ds (to_tokens tokenizer imdb_label_lookup) True [''text'', ''label''],
          Inr tokenized_dataset) \<in> set new"
      "(GetItem tokenized_dataset ''train'', Inr (train_dataset targs)) \<in> set new"
      "(GetItem tokenized_dataset ''test'', Inr (eval_dataset targs)) \<in> set new"
      "(Trainer targs, Inr trainer) \<in> set new"
    using nth_in[OF _ i(1)] nth_in[OF _ i(2)] nth_in[OF _ i(3)] nth_in[OF _ i(4)]
      nth_in[OF _ i(5)] nth_in[OF _ i(6)] l d
    by simp_all
  from run n have "trace (fst (fine_tuning env lroot w)) = trace w @ new"
    by simp
  with fine_tuning_follows have ans: "\<forall>p \<in> set new. \<exists>v. snd p = lib env v (fst p)"
    by (rule follows_answers)
  from bspec[OF ans e(1)] obtain v0 where "lib env v0 (LoadDataset ''imdb'') = Inr imdb_ds"
    by auto
  then have r: "columns imdb_ds \<subseteq> {''text'', ''label''}"
    by (rule raw[rule_format])
  from bspec[OF ans e(3)] obtain v where m: "lib env v (DatasetMap imdb_ds
      (to_tokens tokenizer imdb_label_lookup) True [''text'', ''label'']) = Inr tokenized_dataset"
    by auto
  from bspec[OF ans e(4)] obtain va where a: "lib env va (GetItem tokenized_dataset ''train'') =
      Inr (train_dataset targs)"
    by auto
  from bspec[OF ans e(5)] obtain vb where b: "lib env vb (GetItem tokenized_dataset ''test'') =
      Inr (eval_dataset targs)"
    by auto
  have "trains_on_encodings env columns enc_fields new ''t5-small''"
    unfolding trains_on_encodings_def
    using e(2-6) mapped_columns[of env columns enc_fields, OF mapped split r m a b]
    by (intro exI[of _ tokenizer] exI[of _ imdb_ds] exI[of _ tokenized_dataset]
        exI[of _ targs] exI[of _ trainer] conjI)
  with n r o show ?thesis
    by (intro exI[of _ new] conjI)
qed

lemma deepspeed_run_tokenized:
  fixes columns :: "'o \<Rightarrow> string set" and enc_fields :: "'o \<Rightarrow> string set"
  assumes mapped: "\<forall>v ds f rc r. lib env v (DatasetMap ds f True rc) = Inr r \<longrightarrow>
        columns r \<subseteq> (columns ds - set rc) \<union>
          (\<Union>enc \<in> {enc. \<exists>x v1 v2. apply_closure env f x v1 = (v2, Inr enc)}. enc_fields enc)"
    and split: "\<forall>v ds k s. lib env v (GetItem ds k) = Inr s \<longrightarrow> columns s \<subseteq> columns ds"
    and r: "columns imdb_ds \<subseteq> {''text'', ''label''}"
    and run: "deepspeed_run env lroot imdb_ds w = (w', Inr u)"
  shows "\<exists>new. trace w' = trace w @ new \<and>
    trains_on_encodings env columns enc_fields new ''t5-base'' \<and>
    (\<forall>ds f b rc r. (DatasetMap ds f b rc, r) \<in> set new \<longrightarrow> b \<and> rc = [''text'', ''label''])"
proof -
  from deepspeed_run_success[OF run] obtain new tokenizer tokenized_dataset targs trainer
      train_split test_split where
    n: "trace w' = trace w @ new" and l: "length new = 22"
    and i: "new ! 0 =
         (AutoTokenizer_from_pretrained ''t5-base'' (Some (da_datasets env)), Inr tokenizer)"
      "new ! 1 =
         (DatasetMap imdb_ds (to_tokens tokenizer imdb_label_lookup) True [''text'', ''label''],
          Inr tokenized_dataset)"
      "new ! 5 = (GetItem tokenized_dataset ''train'', Inr train_split)"
      "new ! 6 = (GetItem tokenized_dataset ''test'', Inr test_split)"
      "new ! 7 = (Trainer targs, Inr trainer)"
    and d: "train_dataset targs = train_split" "eval_dataset targs = test_split"
    and o: "\<forall>ds f b rc r. (DatasetMap ds f b rc, r) \<in> set new \<longrightarrow> b \<and> rc = [''text'', ''label'']"
    by (elim exE conjE) (rule that, assumption, simp_all)
  have e: "(AutoTokenizer_from_pretrained ''t5-base'' (Some (da_datasets env)), Inr tokenizer)
         \<in> set new"
      "(DatasetMap imdb_ds (to_tokens tokenizer imdb_label_lookup) True [''text'', ''label''],
          Inr tokenized_dataset) \<in> set new"
      "(GetItem tokenized_dataset ''train'', Inr (train_dataset targs)) \<in> set new"
      "(GetItem tokenized_dataset ''test'', Inr (eval_dataset targs)) \<in> set new"
      "(Trainer targs, Inr trainer) \<in> set new"
    using nth_in[OF _ i(1)] nth_in[OF _ i(2)] nth_in[OF _ i(3)] nth_in[OF _ i(4)]
      nth_in[OF _ i(5)] l d
    by simp_all
  from run n have "trace (fst (deepspeed_run env lroot imdb_ds w)) = trace w @ new"
    by simp
  with deepspeed_run_follows have ans: "\<forall>p \<in> set new. \<exists>v. snd p = lib env v (fst p)"
    by (rule follows_answers)
  from bspec[OF ans e(2)] obtain v where m: "lib env v (DatasetMap imdb_ds
      (to_tokens tokenizer imdb_label_lookup) True [''text'', ''label'']) = Inr tokenized_dataset"
    by auto
  from bspec[OF ans e(3)] obtain va where a: "lib env va (GetItem tokenized_dataset ''train'') =
      Inr (train_dataset targs)"
    by auto
  from bspec[OF ans e(4)] obtain vb where b: "lib env vb (GetItem tokenized_dataset ''test'') =
      Inr (eval_dataset targs)"
    by auto
  have "trains_on_encodings env columns enc_fields new ''t5-base''"
    unfolding trains_on_encodings_def
    using e mapped_columns[of env columns enc_fields, OF mapped split r m a b]
    by (intro exI[of _ tokenizer] exI[of _ imdb_ds] exI[of _ tokenized_dataset]
        exI[of _ targs] exI[of _ trainer] conjI)
  with n o show ?thesis
    by (intro exI[of _ new] conjI)
qed

text \<open>
  C10. Both training runs map the tokenization closure over the raw dataset with
  \<^verbatim>\<open>batched=True\<close> and \<^verbatim>\<open>remove_columns=["text", "label"]\<close>, no other \<^verbatim>\<open>map\<close> is
  called, and the trainer's datasets are the splits \<^verbatim>\<open>["train"]\<close> and \<^verbatim>\<open>["test"]\<close> of
  the result. What \<^verbatim>\<open>map\<close> does with these arguments is the library's: the theorem
  takes its documented behaviour as hypotheses, for any reading \<open>columns\<close> of the column
  names of a dataset and \<open>enc_fields\<close> of the keys of an encoding. If the IMDB dataset has
  no column but "text" and "label", \<^verbatim>\<open>map\<close> yields no column but those of its input that
  it was not asked to remove and the keys of what the mapped function returned, and a
  split has no column its dataset has not, then in a complete run every column of the
  tokenized dataset, and of the two splits handed to the trainer, is a key of a batch
  encoding returned by the run's tokenizer.
\<close>

theorem tokenized_dataset_columns:
  fixes columns :: "'o \<Rightarrow> string set" and enc_fields :: "'o \<Rightarrow> string set"
  assumes raw: "\<forall>v ds. lib env v (LoadDataset ''imdb'') = Inr ds \<longrightarrow>
        columns ds \<subseteq> {''text'', ''label''}"
    and mapped: "\<forall>v ds f rc r. lib env v (DatasetMap ds f True rc) = Inr r \<longrightarrow>
        columns r \<subseteq> (columns ds - set rc) \<union>
          (\<Union>enc \<in> {enc. \<exists>x v1 v2. apply_closure env f x v1 = (v2, Inr enc)}. enc_fields enc)"
    and split: "\<forall>v ds k s. lib env v (GetItem ds k) = Inr s \<longrightarrow> columns s \<subseteq> columns ds"
    and run: "notebook env w = (w', Inr ())"
  shows "\<exists>new. trace w' = trace w @ new \<and>
    trains_on_encodings env columns enc_fields new ''t5-small'' \<and>
    trains_on_encodings env columns enc_fields new ''t5-base'' \<and>
    (\<forall>ds f b rc r. (DatasetMap ds f b rc, r) \<in> set new \<longrightarrow> b \<and> rc = [''text'', ''label''])"
proof -
  from notebook_success[OF run] obtain tmpdir imdb_ds w1 w2 w3 r where
    s: "classroom_setup env w = (w1, Inr tmpdir)"
    and f: "fine_tuning env (tmpdir_name env tmpdir) w1 = (w2, Inr imdb_ds)"
    and d: "deepspeed_section env (tmpdir_name env tmpdir) imdb_ds w2 = (w3, Inr ())"
    and c: "trace w' = trace w3 @ [(Cleanup tmpdir, Inr r)]"
    by blast
  let ?lroot = "tmpdir_name env tmpdir"
  from classroom_setup_success[OF s] obtain S where
    S: "trace w1 = trace w @ S"
    "\<forall>ds f b rc r. (DatasetMap ds f b rc, r) \<notin> set S"
    by (elim exE conjE) (rule that, assumption, simp)
  from fine_tuning_tokenized[of env columns enc_fields, OF raw mapped split f] obtain F where
    F: "trace w2 = trace w1 @ F" "columns imdb_ds \<subseteq> {''text'', ''label''}"
    "trains_on_encodings env columns enc_fields F ''t5-small''"
    "\<forall>ds f b rc r. (DatasetMap ds f b rc, r) \<in> set F \<longrightarrow> b \<and> rc = [''text'', ''label'']"
    by (elim exE conjE) (rule that)
  from deepspeed_section_success[OF d] obtain w0 where
    w0: "trace w0 = trace w2" "deepspeed_run env ?lroot imdb_ds w0 = (w3, Inr ())"
    by blast
  from deepspeed_run_tokenized[of env columns enc_fields, OF mapped split F(2) w0(2)]
  obtain D where
    D: "trace w3 = trace w0 @ D"
    "trains_on_encodings env columns enc_fields D ''t5-base''"
    "\<forall>ds f b rc r. (DatasetMap ds f b rc, r) \<in> set D \<longrightarrow> b \<and> rc = [''text'', ''label'']"
    by (elim exE conjE) (rule that)
  let ?new = "S @ F @ D @ [(Cleanup tmpdir, Inr r)]"
  have t: "trace w' = trace w @ ?new"
    using c D(1) w0(1) F(1) S(1) by simp
  have a: "trains_on_encodings env columns enc_fields ?new ''t5-small''"
    by (rule trains_on_encodings_mono[OF F(3)]) auto
  have b: "trains_on_encodings env columns enc_fields ?new ''t5-base''"
    by (rule trains_on_encodings_mono[OF D(2)]) auto
  have m: "\<forall>ds f b rc r. (DatasetMap ds f b rc, r) \<in> set ?new \<longrightarrow> b \<and> rc = [''text'', ''label'']"
  proof (intro allI impI)
    fix ds f b rc r
    assume "(DatasetMap ds f b rc, r) \<in> set ?new"
    with S(2) have "(DatasetMap ds f b rc, r) \<in> set F \<or> (DatasetMap ds f b rc, r) \<in> set D"
      by simp
    with F(4) D(3) show "b \<and> rc = [''text'', ''label'']"
      by blast
  qed
  from t a b m show ?thesis
    by (intro exI[of _ ?new] conjI)
qed

lemma col_gpu: "py_in ''gpu'' (spark_version col_env)"
  by (simp add: col_env_def)

lemma col_lib_returns: "\<forall>v ev. returned (lib col_env v ev)"
  by (simp add: col_env_def returned_def split: event.splits)

lemma col_run: "notebook col_env col_world = (fst (notebook col_env col_world), Inr ())"
  using notebook_completes[OF col_gpu col_lib_returns, of col_world]
  by (simp add: prod_eq_iff)

lemma col_raw:
  "\<forall>v ds. lib col_env v (LoadDataset ''imdb'') = Inr ds \<longrightarrow> set ds \<subseteq> {''text'', ''label''}"
  by (auto simp: col_env_def)

lemma col_split: "\<forall>v ds k s. lib col_env v (GetItem ds k) = Inr s \<longrightarrow> set s \<subseteq> set ds"
  by (simp add: col_env_def)

lemma col_mapped:
  "\<forall>v ds f rc r. lib col_env v (DatasetMap ds f True rc) = Inr r \<longrightarrow>
     set r \<subseteq> (set ds - set rc) \<union>
       (\<Union>enc \<in> {enc. \<exists>x v1 v2. apply_closure col_env f x v1 = (v2, Inr enc)}. set enc)"
proof (intro allI impI subsetI)
  fix v :: "string list world" and ds f rc r c
  assume l: "lib col_env v (DatasetMap ds f True rc) = Inr r" and c: "c \<in> set r"
  obtain tokenizer label_map where f: "f = Apply tokenizer label_map"
    by (cases f)
  let ?enc = "[''input_ids'', ''attention_mask'', ''labels'']"
  have "apply_closure col_env f \<lparr>text_column = [], label_column = []\<rparr> v =
      (fst (apply_closure col_env f \<lparr>text_column = [], label_column = []\<rparr> v), Inr ?enc)"
    by (simp add: f call_eq col_env_def)
  then have e: "?enc \<in> {enc. \<exists>x v1 v2. apply_closure col_env f x v1 = (v2, Inr enc)}"
    by blast
  from l have "r = filter (\<lambda>c. c \<notin> set rc) ds @ ?enc"
    by (simp add: col_env_def)
  with c have "c \<in> set ds - set rc \<or> c \<in> set ?enc"
    by auto
  then show "c \<in> (set ds - set rc) \<union>
       (\<Union>enc \<in> {enc. \<exists>x v1 v2. apply_closure col_env f x v1 = (v2, Inr enc)}. set enc)"
    using e by blast
qed

theorem tokenized_dataset_columns_witness:
  "notebook col_env col_world = (fst (notebook col_env col_world), Inr ()) \<and>
   (\<exists>new. trace (fst (notebook col_env col_world)) = trace col_world @ new \<and>
      trains_on_encodings col_env set set new ''t5-small'' \<and>
      trains_on_encodings col_env set set new ''t5-base'')"
  using tokenized_dataset_columns[of col_env set set col_world "fst (notebook col_env col_world)",
      OF col_raw col_mapped col_split col_run] col_run
  by blast


end
